theory Spec2Isabelle
  imports Complex_Main "HOL-Library.Sublist"
begin

section \<open>The LLR heatmap of the notebook Log-Likelihood-Ratios.ipynb\<close>

text \<open>
  The notebook defines \<^verbatim>\<open>interactive_heatmap\<close>, its callback \<^verbatim>\<open>update_heatmap\<close> and
  \<^verbatim>\<open>generate_heatmap\<close>. The last one loads a tokenizer and a masked language model,
  tokenizes the protein sequence, and for every position of a range masks that position in
  a clone of the token tensor, runs the model and fills one column of a 20-row array with
  log-likelihood ratios; it then hands the array to matplotlib. The two sliders that
  \<^verbatim>\<open>interactive_heatmap\<close> builds are widgets of a library and are not modelled; the
  callback takes the sequence of the enclosing call as an argument.

  Numbers of the arrays are floating-point values: a finite one is the real it stands
  for, and the two infinities and NaN are values of their own. What torch computes for
  softmax and log, and how a float subtraction rounds its result, is not fixed here: they
  are parameters, like the tokenizer and the model. Python integers are \<open>int\<close>.
\<close>

subsection \<open>Python exceptions\<close>

datatype error = ValueError | IndexError

subsection \<open>Floating-point values\<close>

datatype fnum = Finite real | PosInf | NegInf | NaN

fun is_finite :: "fnum \<Rightarrow> bool" where
  "is_finite (Finite a) = True"
| "is_finite x = False"

text \<open>
  The subtraction \<^verbatim>\<open>x - y\<close> of two Python floats, as IEEE 754 has it: NaN spreads, equal
  infinities give NaN, and the difference of two finite values is rounded by \<open>rnd\<close>.
\<close>

fun py_sub :: "(real \<Rightarrow> fnum) \<Rightarrow> fnum \<Rightarrow> fnum \<Rightarrow> fnum" where
  "py_sub rnd NaN y = NaN"
| "py_sub rnd x NaN = NaN"
| "py_sub rnd (Finite a) (Finite b) = rnd (a - b)"
| "py_sub rnd (Finite a) PosInf = NegInf"
| "py_sub rnd (Finite a) NegInf = PosInf"
| "py_sub rnd PosInf (Finite b) = PosInf"
| "py_sub rnd NegInf (Finite b) = NegInf"
| "py_sub rnd PosInf NegInf = PosInf"
| "py_sub rnd NegInf PosInf = NegInf"
| "py_sub rnd PosInf PosInf = NaN"
| "py_sub rnd NegInf NegInf = NaN"

subsection \<open>Indexing\<close>

text \<open>
  An index \<open>i\<close> into a dimension of size \<open>n\<close>: \<open>0 .. n-1\<close> as it stands, \<open>-n .. -1\<close>
  counted from the end, anything else raises IndexError (lists, numpy arrays and torch
  tensors agree on this for a single integer index).
\<close>

definition py_norm :: "nat \<Rightarrow> int \<Rightarrow> error + nat" where
  "py_norm n i =
     (if 0 \<le> i \<and> i < int n then Inr (nat i)
      else if i < 0 \<and> - int n \<le> i then Inr (nat (int n + i))
      else Inl IndexError)"

definition getitem :: "'a list \<Rightarrow> int \<Rightarrow> error + 'a" where
  "getitem xs i = (case py_norm (length xs) i of Inl e \<Rightarrow> Inl e | Inr k \<Rightarrow> Inr (xs ! k))"

definition setitem :: "'a list \<Rightarrow> int \<Rightarrow> 'a \<Rightarrow> error + 'a list" where
  "setitem xs i v = (case py_norm (length xs) i of Inl e \<Rightarrow> Inl e | Inr k \<Rightarrow> Inr (xs[k := v]))"

text \<open>The slice \<^verbatim>\<open>xs[i:j]\<close> (step 1): both bounds are clipped, never an error.\<close>

definition py_slice :: "'a list \<Rightarrow> int \<Rightarrow> int \<Rightarrow> 'a list" where
  "py_slice xs i j =
     (let n = int (length xs);
          lo = (if i < 0 then max (i + n) 0 else min i n);
          hi = (if j < 0 then max (j + n) 0 else min j n)
      in take (nat (hi - lo)) (drop (nat lo) xs))"

subsection \<open>The libraries the notebook calls\<close>

text \<open>
  The tokenizer and the model come from the transformers library, which is not part of
  the repository: they are parameters. A tokenizer is the three members the notebook uses;
  a model maps the row of token ids to its logits, one row of vocabulary size per token
  (the batch dimension, always of size 1 in the notebook, is left out). The record of
  libraries gives the tokenizer and the model stored under a name (loading is taken to
  succeed), \<^verbatim>\<open>torch.nn.functional.softmax(v, dim=0)\<close> and \<^verbatim>\<open>torch.log\<close> on a vector, and
  the rounding of the result of a float subtraction.
\<close>

record tokenizer =
  encode :: "string \<Rightarrow> int list"
  mask_token_id :: int
  convert_tokens_to_ids :: "string \<Rightarrow> int"

type_synonym model = "int list \<Rightarrow> fnum list list"

record libraries =
  AutoTokenizer_from_pretrained :: "string \<Rightarrow> tokenizer"
  EsmForMaskedLM_from_pretrained :: "string \<Rightarrow> model"
  torch_softmax :: "fnum list \<Rightarrow> fnum list"
  torch_log :: "fnum list \<Rightarrow> fnum list"
  float_round :: "real \<Rightarrow> fnum"

text \<open>\<^verbatim>\<open>np.zeros((r, c))\<close>: a negative dimension raises ValueError.\<close>

definition np_zeros :: "nat \<Rightarrow> int \<Rightarrow> error + fnum list list" where
  "np_zeros r c =
     (if c < 0 then Inl ValueError else Inr (replicate r (replicate (nat c) (Finite 0))))"

text \<open>\<^verbatim>\<open>heatmap[i, j] = v\<close> on a two-dimensional array, kept as the list of its rows.\<close>

definition heatmap_set :: "fnum list list \<Rightarrow> int \<Rightarrow> int \<Rightarrow> fnum \<Rightarrow> error + fnum list list" where
  "heatmap_set h i j v =
     (case py_norm (length h) i of
        Inl e \<Rightarrow> Inl e
      | Inr r \<Rightarrow> (case setitem (h ! r) j v of Inl e \<Rightarrow> Inl e | Inr row \<Rightarrow> Inr (h[r := row])))"

subsection \<open>The world: tensors of token ids and the trace of library calls\<close>

text \<open>
  Token tensors are objects that the notebook clones and assigns into, so they live in a
  store: an address is an index into \<open>heap\<close>, and a new tensor is put at the end. The
  trace records the loads and the forward passes, each pass with the token ids it was
  given.
\<close>

datatype event = LoadTokenizer string | LoadModel string | Forward "int list"

record world =
  heap :: "int list list"
  events :: "event list"

definition alloc :: "int list \<Rightarrow> world \<Rightarrow> nat \<times> world" where
  "alloc t w = (length (heap w), w\<lparr>heap := heap w @ [t]\<rparr>)"

definition clone :: "nat \<Rightarrow> world \<Rightarrow> nat \<times> world" where
  "clone a w = alloc (heap w ! a) w"

definition tensor_set :: "nat \<Rightarrow> int \<Rightarrow> int \<Rightarrow> world \<Rightarrow> (error + unit) \<times> world" where
  "tensor_set a i v w =
     (case setitem (heap w ! a) i v of
        Inl e \<Rightarrow> (Inl e, w)
      | Inr t \<Rightarrow> (Inr (), w\<lparr>heap := (heap w)[a := t]\<rparr>))"

definition forward :: "model \<Rightarrow> nat \<Rightarrow> world \<Rightarrow> fnum list list \<times> world" where
  "forward m a w = (m (heap w ! a), w\<lparr>events := events w @ [Forward (heap w ! a)]\<rparr>)"

subsection \<open>generate\_heatmap\<close>

definition model_name :: string where
  "model_name = ''facebook/esm2_t6_8M_UR50D''"

definition amino_acids :: string where
  "amino_acids = ''ACDEFGHIKLMNPQRSTVWY''"

text \<open>
  The inner loop \<^verbatim>\<open>for i, amino_acid in enumerate(amino_acids)\<close>, over the pairs that are
  still to be visited; \<open>col\<close> is \<^verbatim>\<open>position - start_pos\<close>.
\<close>

fun variants_loop ::
  "libraries \<Rightarrow> tokenizer \<Rightarrow> fnum list \<Rightarrow> fnum \<Rightarrow> int \<Rightarrow> (nat \<times> char) list
    \<Rightarrow> fnum list list \<Rightarrow> error + fnum list list" where
  "variants_loop lib tk log_probabilities log_prob_wt col [] heatmap = Inr heatmap"
| "variants_loop lib tk log_probabilities log_prob_wt col ((i, amino_acid) # rest) heatmap =
     (case getitem log_probabilities (convert_tokens_to_ids tk [amino_acid]) of
        Inl e \<Rightarrow> Inl e
      | Inr log_prob_mt \<Rightarrow>
          (case heatmap_set heatmap (int i) col
                  (py_sub (float_round lib) log_prob_mt log_prob_wt) of
             Inl e \<Rightarrow> Inl e
           | Inr heatmap' \<Rightarrow>
               variants_loop lib tk log_probabilities log_prob_wt col rest heatmap'))"

text \<open>The body of the loop over positions; \<open>input_ids\<close> is the address of the token tensor.\<close>

definition score_position ::
  "libraries \<Rightarrow> tokenizer \<Rightarrow> model \<Rightarrow> nat \<Rightarrow> int \<Rightarrow> int \<Rightarrow> fnum list list \<Rightarrow> world
    \<Rightarrow> (error + fnum list list) \<times> world" where
  "score_position lib tk m input_ids start_pos position heatmap w =
     (case clone input_ids w of
        (masked_input_ids, w1) \<Rightarrow>
          (case tensor_set masked_input_ids position (mask_token_id tk) w1 of
             (Inl e, w2) \<Rightarrow> (Inl e, w2)
           | (Inr u, w2) \<Rightarrow>
               (case forward m masked_input_ids w2 of
                  (logits, w3) \<Rightarrow>
                    (case getitem logits position of
                       Inl e \<Rightarrow> (Inl e, w3)
                     | Inr row \<Rightarrow>
                         (let probabilities = torch_softmax lib row;
                              log_probabilities = torch_log lib probabilities in
                          case getitem (heap w3 ! input_ids) position of
                            Inl e \<Rightarrow> (Inl e, w3)
                          | Inr wt_residue \<Rightarrow>
                              (case getitem log_probabilities wt_residue of
                                 Inl e \<Rightarrow> (Inl e, w3)
                               | Inr log_prob_wt \<Rightarrow>
                                   (variants_loop lib tk log_probabilities log_prob_wt
                                      (position - start_pos) (enumerate 0 amino_acids) heatmap,
                                    w3)))))))"

text \<open>The loop \<^verbatim>\<open>for position in range(start_pos, end_pos + 1)\<close>, over the positions left.\<close>

fun score_loop ::
  "libraries \<Rightarrow> tokenizer \<Rightarrow> model \<Rightarrow> nat \<Rightarrow> int \<Rightarrow> int list \<Rightarrow> fnum list list \<Rightarrow> world
    \<Rightarrow> (error + fnum list list) \<times> world" where
  "score_loop lib tk m input_ids start_pos [] heatmap w = (Inr heatmap, w)"
| "score_loop lib tk m input_ids start_pos (position # rest) heatmap w =
     (case score_position lib tk m input_ids start_pos position heatmap w of
        (Inl e, w') \<Rightarrow> (Inl e, w')
      | (Inr heatmap', w') \<Rightarrow> score_loop lib tk m input_ids start_pos rest heatmap' w')"

text \<open>
  What the function hands to matplotlib: the array given to \<^verbatim>\<open>imshow\<close>, and the tick
  positions and labels of both axes. The function itself returns nothing; the model
  returns this figure as its value. \<^verbatim>\<open>plt.xticks\<close> raises ValueError when it is given
  a number of labels other than the number of tick positions. Titles, axis labels and the
  colour bar are constants and left out; apart from the tick labels matplotlib is taken
  to accept what it is given.
\<close>

record figure =
  data :: "fnum list list"
  xtick_locs :: "int list"
  xtick_labels :: string
  ytick_locs :: "int list"
  ytick_labels :: string

definition generate_heatmap ::
  "libraries \<Rightarrow> string \<Rightarrow> int \<Rightarrow> int option \<Rightarrow> world \<Rightarrow> (error + figure) \<times> world" where
  "generate_heatmap lib protein_sequence start_pos end_arg w =
     (let tk = AutoTokenizer_from_pretrained lib model_name;
          m = EsmForMaskedLM_from_pretrained lib model_name;
          w1 = w\<lparr>events := events w @ [LoadTokenizer model_name, LoadModel model_name]\<rparr>
      in case alloc (encode tk protein_sequence) w1 of
        (input_ids, w2) \<Rightarrow>
          (let sequence_length = int (length (heap w2 ! input_ids)) - 2;
               end_pos = (case end_arg of None \<Rightarrow> sequence_length | Some e \<Rightarrow> e)
           in case np_zeros 20 (end_pos - start_pos + 1) of
                Inl e \<Rightarrow> (Inl e, w2)
              | Inr heatmap \<Rightarrow>
                  (case score_loop lib tk m input_ids start_pos [start_pos..end_pos]
                          heatmap w2 of
                     (Inl e, w3) \<Rightarrow> (Inl e, w3)
                   | (Inr heatmap', w3) \<Rightarrow>
                       (let ticks = [0..end_pos - start_pos];
                            labels = py_slice protein_sequence (start_pos - 1) end_pos
                        in if length labels \<noteq> length ticks then (Inl ValueError, w3)
                           else (Inr \<lparr>data = heatmap',
                                      xtick_locs = ticks,
                                      xtick_labels = labels,
                                      ytick_locs = [0..19],
                                      ytick_labels = amino_acids\<rparr>,
                                 w3)))))"

text \<open>
  The callback of the two sliders in \<^verbatim>\<open>interactive_heatmap\<close>: it calls
  \<^verbatim>\<open>generate_heatmap\<close> when \<^verbatim>\<open>start <= end\<close> and does nothing otherwise.
\<close>

definition update_heatmap ::
  "libraries \<Rightarrow> string \<Rightarrow> int \<Rightarrow> int \<Rightarrow> world \<Rightarrow> (error + figure option) \<times> world" where
  "update_heatmap lib protein_sequence start endp w =
     (if start \<le> endp then
        (case generate_heatmap lib protein_sequence start (Some endp) w of
           (Inl e, w') \<Rightarrow> (Inl e, w')
         | (Inr fig, w') \<Rightarrow> (Inr (Some fig), w'))
      else (Inr None, w))"

subsection \<open>The quantities the statements speak of\<close>

text \<open>
  The token row masked at position \<open>p\<close>, the log-probabilities that the model gives at
  that position for the masked row, and the log-likelihood ratio of residue \<open>a\<close> against
  the token that the unmasked row holds at \<open>p\<close>.
\<close>

definition masked :: "tokenizer \<Rightarrow> int list \<Rightarrow> int \<Rightarrow> int list" where
  "masked tk ids p = ids[nat p := mask_token_id tk]"

definition log_probs_at ::
  "libraries \<Rightarrow> tokenizer \<Rightarrow> model \<Rightarrow> int list \<Rightarrow> int \<Rightarrow> fnum list" where
  "log_probs_at lib tk m ids p =
     torch_log lib (torch_softmax lib (m (masked tk ids p) ! nat p))"

definition llr ::
  "libraries \<Rightarrow> tokenizer \<Rightarrow> model \<Rightarrow> int list \<Rightarrow> int \<Rightarrow> char \<Rightarrow> fnum" where
  "llr lib tk m ids p a =
     py_sub (float_round lib)
       (log_probs_at lib tk m ids p ! nat (convert_tokens_to_ids tk [a]))
       (log_probs_at lib tk m ids p ! nat (ids ! nat p))"

text \<open>
  What the statements assume of the libraries. A model gives one row of logits per token,
  each of the vocabulary size \<open>V\<close>. A tokenizer gives each of the twenty residues an id
  within the vocabulary. A tokenizer frames a sequence when its encoding is one id per
  character, as \<^verbatim>\<open>convert_tokens_to_ids\<close> gives it, between a start and an end token.
  Softmax and log keep the length of a vector.
\<close>

definition wf_numerics :: "libraries \<Rightarrow> bool" where
  "wf_numerics lib \<longleftrightarrow>
     (\<forall>v. length (torch_softmax lib v) = length v \<and> length (torch_log lib v) = length v)"

definition wf_model :: "model \<Rightarrow> nat \<Rightarrow> bool" where
  "wf_model m V \<longleftrightarrow> (\<forall>xs. length (m xs) = length xs \<and> (\<forall>r \<in> set (m xs). length r = V))"

definition wf_tokenizer :: "tokenizer \<Rightarrow> nat \<Rightarrow> bool" where
  "wf_tokenizer tk V \<longleftrightarrow>
     (\<forall>c \<in> set amino_acids. 0 \<le> convert_tokens_to_ids tk [c] \<and> convert_tokens_to_ids tk [c] < int V)"

definition frames :: "tokenizer \<Rightarrow> string \<Rightarrow> bool" where
  "frames tk s \<longleftrightarrow>
     length (encode tk s) = length s + 2
     \<and> butlast (tl (encode tk s)) = map (\<lambda>c. convert_tokens_to_ids tk [c]) s"

text \<open>The last position of the loop: \<^verbatim>\<open>end_pos\<close> after the default has been filled in.\<close>

definition end_default :: "int list \<Rightarrow> int option \<Rightarrow> int" where
  "end_default ids end_arg = (case end_arg of None \<Rightarrow> int (length ids) - 2 | Some e \<Rightarrow> e)"

text \<open>
  A valid request, as the statements about the table assume it: well-formed libraries
  under the name the function loads, a sequence over the twenty letters that the tokenizer
  frames, and a range with \<open>1 \<le> start \<le> end \<le> L\<close>, \<open>L\<close> the length of the sequence.
\<close>

definition valid_request :: "libraries \<Rightarrow> nat \<Rightarrow> string \<Rightarrow> int \<Rightarrow> int \<Rightarrow> bool" where
  "valid_request lib V s start endp \<longleftrightarrow>
     wf_numerics lib
     \<and> wf_model (EsmForMaskedLM_from_pretrained lib model_name) V
     \<and> wf_tokenizer (AutoTokenizer_from_pretrained lib model_name) V
     \<and> frames (AutoTokenizer_from_pretrained lib model_name) s
     \<and> set s \<subseteq> set amino_acids
     \<and> 1 \<le> start \<and> start \<le> endp \<and> endp \<le> int (length s)"

subsection \<open>An instance to run the definitions on\<close>

text \<open>
  The vocabulary of the ESM-2 tokenizer (33 tokens) and a tokenizer over it: a character
  that is a token gets its id, a run of other characters gets one \<^verbatim>\<open><unk>\<close>, a space
  ends a run and gives no token, and a token that is not in the vocabulary is converted to
  the id of \<^verbatim>\<open><unk>\<close>. (The instance does not recognise a special token such as
  \<^verbatim>\<open><mask>\<close> spelled out inside a sequence, and knows no white space but the space.)
\<close>

definition esm_vocab :: "(string \<times> int) list" where
  "esm_vocab =
     [(''<cls>'', 0), (''<pad>'', 1), (''<eos>'', 2), (''<unk>'', 3),
      (''L'', 4), (''A'', 5), (''G'', 6), (''V'', 7), (''S'', 8), (''E'', 9), (''R'', 10),
      (''T'', 11), (''I'', 12), (''D'', 13), (''P'', 14), (''K'', 15), (''Q'', 16),
      (''N'', 17), (''F'', 18), (''Y'', 19), (''M'', 20), (''H'', 21), (''W'', 22),
      (''C'', 23), (''X'', 24), (''B'', 25), (''U'', 26), (''Z'', 27), (''O'', 28),
      (''.'', 29), (''-'', 30), (''<null_1>'', 31), (''<mask>'', 32)]"

definition esm_token_to_id :: "string \<Rightarrow> int" where
  "esm_token_to_id t = (case map_of esm_vocab t of None \<Rightarrow> 3 | Some k \<Rightarrow> k)"

fun esm_tokens :: "bool \<Rightarrow> string \<Rightarrow> int list" where
  "esm_tokens in_unknown_run [] = []"
| "esm_tokens in_unknown_run (c # cs) =
     (if c = CHR '' '' then esm_tokens False cs
      else case map_of esm_vocab [c] of
             Some k \<Rightarrow> k # esm_tokens False cs
           | None \<Rightarrow> if in_unknown_run then esm_tokens True cs else 3 # esm_tokens True cs)"

definition esm_tokenizer :: tokenizer where
  "esm_tokenizer =
     \<lparr>encode = (\<lambda>s. 0 # esm_tokens False s @ [2]),
      mask_token_id = 32,
      convert_tokens_to_ids = esm_token_to_id\<rparr>"

text \<open>
  A small model: its logits at a position are \<open>height\<close> for the token that stands before
  the position and 0 for every other token.
\<close>

definition previous_token_model :: "real \<Rightarrow> model" where
  "previous_token_model height ids =
     map (\<lambda>t. map (\<lambda>v. Finite (if v = t then height else 0)) [0..32])
       (take (length ids) (0 # ids))"

text \<open>
  Softmax as torch computes it (subtract the maximum, exponentiate, normalise) with the
  underflow of the 32-bit exponential, which is 0 below \<open>-104\<close>, and the log with
  \<open>log 0 = -inf\<close>. No other rounding is part of the instance, its subtraction is exact,
  and a row that holds a value that is not finite is given NaN throughout.
\<close>

fun the_finite :: "fnum \<Rightarrow> real option" where
  "the_finite (Finite a) = Some a"
| "the_finite x = None"

definition exp32 :: "real \<Rightarrow> real" where
  "exp32 x = (if x < - 104 then 0 else exp x)"

definition f32_softmax :: "fnum list \<Rightarrow> fnum list" where
  "f32_softmax v =
     (case those (map the_finite v) of
        None \<Rightarrow> map (\<lambda>x. NaN) v
      | Some xs \<Rightarrow>
          (let es = map (\<lambda>x. exp32 (x - Max (set xs))) xs
           in map (\<lambda>e. Finite (e / sum_list es)) es))"

fun f32_log1 :: "fnum \<Rightarrow> fnum" where
  "f32_log1 (Finite a) = (if a = 0 then NegInf else if a < 0 then NaN else Finite (ln a))"
| "f32_log1 PosInf = PosInf"
| "f32_log1 NegInf = NaN"
| "f32_log1 NaN = NaN"

definition f32_log :: "fnum list \<Rightarrow> fnum list" where
  "f32_log v = map f32_log1 v"

definition demo_libraries :: "real \<Rightarrow> libraries" where
  "demo_libraries height =
     \<lparr>AutoTokenizer_from_pretrained = (\<lambda>name. esm_tokenizer),
      EsmForMaskedLM_from_pretrained = (\<lambda>name. previous_token_model height),
      torch_softmax = f32_softmax,
      torch_log = f32_log,
      float_round = Finite\<rparr>"

definition empty_world :: world where
  "empty_world = \<lparr>heap = [], events = []\<rparr>"

section \<open>Theorems\<close>

subsection \<open>Indexing within range\<close>

lemma py_norm_in: "0 \<le> i \<Longrightarrow> i < int n \<Longrightarrow> py_norm n i = Inr (nat i)"
  by (simp add: py_norm_def)

lemma getitem_in: "0 \<le> i \<Longrightarrow> i < int (length xs) \<Longrightarrow> getitem xs i = Inr (xs ! nat i)"
  by (simp add: getitem_def py_norm_in)

lemma setitem_in: "0 \<le> i \<Longrightarrow> i < int (length xs) \<Longrightarrow> setitem xs i v = Inr (xs[nat i := v])"
  by (simp add: setitem_def py_norm_in)

lemma heatmap_set_in:
  "r < length h \<Longrightarrow> c < length (h ! r) \<Longrightarrow>
   heatmap_set h (int r) (int c) v = Inr (h[r := (h ! r)[c := v]])"
  by (simp add: heatmap_set_def py_norm_in setitem_in)

lemma variants_loop_ok:
  assumes "k + length cs \<le> length h"
    and "\<forall>r<length h. c < length (h ! r)"
    and "\<forall>a \<in> set cs. 0 \<le> convert_tokens_to_ids tk [a] \<and> convert_tokens_to_ids tk [a] < int (length lps)"
  shows "\<exists>h'. variants_loop lib tk lps wt (int c) (enumerate k cs) h = Inr h'
           \<and> length h' = length h
           \<and> (\<forall>r<length h. length (h' ! r) = length (h ! r))
           \<and> (\<forall>r<length h. \<forall>j<length (h ! r). h' ! r ! j =
                 (if j = c \<and> k \<le> r \<and> r < k + length cs
                  then py_sub (float_round lib) (lps ! nat (convert_tokens_to_ids tk [cs ! (r - k)])) wt
                  else h ! r ! j))"
  using assms
proof (induction cs arbitrary: k h)
  case Nil
  then show ?case by auto
next
  case (Cons a cs)
  let ?v = "py_sub (float_round lib) (lps ! nat (convert_tokens_to_ids tk [a])) wt"
  let ?h1 = "h[k := (h ! k)[c := ?v]]"
  have k: "k < length h" and ck: "c < length (h ! k)"
    using Cons.prems by auto
  have g: "getitem lps (convert_tokens_to_ids tk [a]) = Inr (lps ! nat (convert_tokens_to_ids tk [a]))"
    using Cons.prems(3) by (simp add: getitem_in)
  have s: "heatmap_set h (int k) (int c) ?v = Inr ?h1"
    using k ck by (rule heatmap_set_in)
  have step: "variants_loop lib tk lps wt (int c) (enumerate k (a # cs)) h
              = variants_loop lib tk lps wt (int c) (enumerate (Suc k) cs) ?h1"
    by (simp add: g s)
  have p1: "Suc k + length cs \<le> length ?h1" using Cons.prems(1) by simp
  have p2: "\<forall>r<length ?h1. c < length (?h1 ! r)"
    using Cons.prems(2) k by (auto simp: nth_list_update)
  have p3: "\<forall>a \<in> set cs. 0 \<le> convert_tokens_to_ids tk [a] \<and> convert_tokens_to_ids tk [a] < int (length lps)"
    using Cons.prems(3) by simp
  from Cons.IH[OF p1 p2 p3] obtain h' where
    r: "variants_loop lib tk lps wt (int c) (enumerate (Suc k) cs) ?h1 = Inr h'"
    and l: "length h' = length ?h1"
    and rl: "\<forall>r<length ?h1. length (h' ! r) = length (?h1 ! r)"
    and cell: "\<forall>r<length ?h1. \<forall>j<length (?h1 ! r). h' ! r ! j =
                 (if j = c \<and> Suc k \<le> r \<and> r < Suc k + length cs
                  then py_sub (float_round lib) (lps ! nat (convert_tokens_to_ids tk [cs ! (r - Suc k)])) wt
                  else ?h1 ! r ! j)"
    by blast
  have "\<forall>r<length h. length (h' ! r) = length (h ! r)"
    using rl k by (auto simp: nth_list_update)
  moreover have "\<forall>r<length h. \<forall>j<length (h ! r). h' ! r ! j =
                 (if j = c \<and> k \<le> r \<and> r < k + length (a # cs)
                  then py_sub (float_round lib) (lps ! nat (convert_tokens_to_ids tk [(a # cs) ! (r - k)])) wt
                  else h ! r ! j)"
  proof (intro allI impI)
    fix r j assume r: "r < length h" and j: "j < length (h ! r)"
    have "h' ! r ! j = (if j = c \<and> Suc k \<le> r \<and> r < Suc k + length cs
                  then py_sub (float_round lib) (lps ! nat (convert_tokens_to_ids tk [cs ! (r - Suc k)])) wt
                  else ?h1 ! r ! j)"
      using cell r j k by (auto simp: nth_list_update)
    then show "h' ! r ! j =
                 (if j = c \<and> k \<le> r \<and> r < k + length (a # cs)
                  then py_sub (float_round lib) (lps ! nat (convert_tokens_to_ids tk [(a # cs) ! (r - k)])) wt
                  else h ! r ! j)"
      using r j k ck by (auto simp: nth_list_update nth_Cons' Suc_diff_le)
  qed
  ultimately show ?case using step r l by simp
qed

subsection \<open>One position, and the loop over positions\<close>

lemma length_amino_acids: "length amino_acids = 20"
  by (simp add: amino_acids_def)

lemma length_log_softmax:
  "wf_numerics lib \<Longrightarrow> length (torch_log lib (torch_softmax lib v)) = length v"
  by (simp add: wf_numerics_def)

lemma score_position_ok:
  assumes a: "a < length (heap w)" "heap w ! a = ids"
    and wf: "wf_model m V" "wf_tokenizer tk V" and nm: "wf_numerics lib"
    and p: "0 \<le> p" "p < int (length ids)"
    and wt: "0 \<le> ids ! nat p" "ids ! nat p < int V"
    and col: "start \<le> p" "nat (p - start) < ncols"
    and h: "length h = 20" "\<forall>r<20. length (h ! r) = ncols"
  shows "\<exists>h'. score_position lib tk m a start p h w =
             (Inr h', w\<lparr>heap := heap w @ [masked tk ids p],
                        events := events w @ [Forward (masked tk ids p)]\<rparr>)
           \<and> length h' = 20
           \<and> (\<forall>r<20. length (h' ! r) = ncols)
           \<and> (\<forall>r<20. \<forall>j<ncols. h' ! r ! j =
                 (if j = nat (p - start) then llr lib tk m ids p (amino_acids ! r) else h ! r ! j))"
proof -
  let ?mk = "masked tk ids p"
  let ?row = "m ?mk ! nat p"
  let ?lps = "log_probs_at lib tk m ids p"
  let ?wt = "?lps ! nat (ids ! nat p)"
  let ?w3 = "w\<lparr>heap := heap w @ [?mk], events := events w @ [Forward ?mk]\<rparr>"
  have lm: "length (m ?mk) = length ids"
    using wf(1) by (simp add: wf_model_def masked_def)
  have "?row \<in> set (m ?mk)"
    using lm p by (simp add: nat_less_iff)
  then have lrow: "length ?row = V"
    using wf(1) by (simp add: wf_model_def)
  have llps: "length ?lps = V"
    by (simp add: log_probs_at_def length_log_softmax[OF nm] lrow)
  have c1: "clone a w = (length (heap w), w\<lparr>heap := heap w @ [ids]\<rparr>)"
    by (simp add: clone_def alloc_def a)
  have c2: "tensor_set (length (heap w)) p (mask_token_id tk) (w\<lparr>heap := heap w @ [ids]\<rparr>)
            = (Inr (), w\<lparr>heap := heap w @ [?mk]\<rparr>)"
    using p by (simp add: tensor_set_def setitem_in masked_def)
  have c3: "forward m (length (heap w)) (w\<lparr>heap := heap w @ [?mk]\<rparr>) = (m ?mk, ?w3)"
    by (simp add: forward_def)
  have c4: "getitem (m ?mk) p = Inr ?row"
    using p lm by (simp add: getitem_in)
  have c5: "getitem (heap ?w3 ! a) p = Inr (ids ! nat p)"
    using a p by (simp add: nth_append getitem_in)
  have c6: "getitem ?lps (ids ! nat p) = Inr ?wt"
    using wt llps by (simp add: getitem_in)
  have v1: "0 + length amino_acids \<le> length h"
    using h(1) by (simp add: length_amino_acids)
  have v2: "\<forall>r<length h. nat (p - start) < length (h ! r)"
    using h col by simp
  have v3: "\<forall>c \<in> set amino_acids. 0 \<le> convert_tokens_to_ids tk [c]
              \<and> convert_tokens_to_ids tk [c] < int (length ?lps)"
    using wf(2) by (simp add: wf_tokenizer_def llps)
  from variants_loop_ok[OF v1 v2 v3, where wt = ?wt and lib = lib] obtain h' where
    r: "variants_loop lib tk ?lps ?wt (int (nat (p - start))) (enumerate 0 amino_acids) h = Inr h'"
    and l: "length h' = length h"
    and rl: "\<forall>r<length h. length (h' ! r) = length (h ! r)"
    and cell: "\<forall>r<length h. \<forall>j<length (h ! r). h' ! r ! j =
                 (if j = nat (p - start) \<and> 0 \<le> r \<and> r < 0 + length amino_acids
                  then py_sub (float_round lib) (?lps ! nat (convert_tokens_to_ids tk [amino_acids ! (r - 0)])) ?wt
                  else h ! r ! j)"
    by blast
  have colint: "int (nat (p - start)) = p - start"
    using col(1) by simp
  have r': "variants_loop lib tk ?lps ?wt (p - start) (enumerate 0 amino_acids) h = Inr h'"
    using r unfolding colint .
  have run: "score_position lib tk m a start p h w = (Inr h', ?w3)"
    unfolding score_position_def c1
    using c2 c3 c4 c5 c6 r'
    by (simp add: log_probs_at_def Let_def)
  have cells: "\<forall>r<20. \<forall>j<ncols. h' ! r ! j =
                 (if j = nat (p - start) then llr lib tk m ids p (amino_acids ! r) else h ! r ! j)"
    using cell h by (simp add: length_amino_acids llr_def)
  show ?thesis
    using run l rl cells h by simp
qed

lemma score_loop_ok:
  assumes a: "a < length (heap w)" "heap w ! a = ids"
    and wf: "wf_model m V" "wf_tokenizer tk V" and nm: "wf_numerics lib"
    and ps: "distinct ps"
      "\<forall>p \<in> set ps. 0 \<le> p \<and> p < int (length ids) \<and> 0 \<le> ids ! nat p \<and> ids ! nat p < int V
          \<and> start \<le> p \<and> nat (p - start) < ncols"
    and h: "length h = 20" "\<forall>r<20. length (h ! r) = ncols"
  shows "\<exists>h'. score_loop lib tk m a start ps h w =
             (Inr h', w\<lparr>heap := heap w @ map (masked tk ids) ps,
                        events := events w @ map (\<lambda>p. Forward (masked tk ids p)) ps\<rparr>)
           \<and> length h' = 20
           \<and> (\<forall>r<20. length (h' ! r) = ncols)
           \<and> (\<forall>p \<in> set ps. \<forall>r<20. h' ! r ! nat (p - start) = llr lib tk m ids p (amino_acids ! r))
           \<and> (\<forall>r<20. \<forall>j<ncols. j \<notin> (\<lambda>p. nat (p - start)) ` set ps \<longrightarrow> h' ! r ! j = h ! r ! j)"
  using a ps h
proof (induction ps arbitrary: h w)
  case Nil
  then show ?case by simp
next
  case (Cons p ps)
  let ?w1 = "w\<lparr>heap := heap w @ [masked tk ids p],
                events := events w @ [Forward (masked tk ids p)]\<rparr>"
  have pp: "0 \<le> p" "p < int (length ids)" "0 \<le> ids ! nat p" "ids ! nat p < int V"
    "start \<le> p" "nat (p - start) < ncols"
    using Cons.prems(4) by simp_all
  from score_position_ok[OF Cons.prems(1,2) wf nm pp Cons.prems(5,6)] obtain h1 where
    s: "score_position lib tk m a start p h w = (Inr h1, ?w1)"
    and l1: "length h1 = 20"
    and rl1: "\<forall>r<20. length (h1 ! r) = ncols"
    and cell1: "\<forall>r<20. \<forall>j<ncols. h1 ! r ! j =
                 (if j = nat (p - start) then llr lib tk m ids p (amino_acids ! r) else h ! r ! j)"
    by blast
  have a1: "a < length (heap ?w1)" "heap ?w1 ! a = ids"
    using Cons.prems(1,2) by (simp_all add: nth_append)
  have d: "distinct ps" using Cons.prems(3) by simp
  have q: "\<forall>p \<in> set ps. 0 \<le> p \<and> p < int (length ids) \<and> 0 \<le> ids ! nat p \<and> ids ! nat p < int V
          \<and> start \<le> p \<and> nat (p - start) < ncols"
    using Cons.prems(4) by simp
  from Cons.IH[OF a1 d q l1 rl1] obtain h' where
    r: "score_loop lib tk m a start ps h1 ?w1 =
             (Inr h', ?w1\<lparr>heap := heap ?w1 @ map (masked tk ids) ps,
                        events := events ?w1 @ map (\<lambda>p. Forward (masked tk ids p)) ps\<rparr>)"
    and l: "length h' = 20"
    and rl: "\<forall>r<20. length (h' ! r) = ncols"
    and earlier: "\<forall>p \<in> set ps. \<forall>r<20. h' ! r ! nat (p - start) = llr lib tk m ids p (amino_acids ! r)"
    and rest: "\<forall>r<20. \<forall>j<ncols. j \<notin> (\<lambda>p. nat (p - start)) ` set ps \<longrightarrow> h' ! r ! j = h1 ! r ! j"
    by blast
  have fresh: "nat (p - start) \<notin> (\<lambda>p. nat (p - start)) ` set ps"
  proof
    assume "nat (p - start) \<in> (\<lambda>p. nat (p - start)) ` set ps"
    then obtain q where "q \<in> set ps" "nat (p - start) = nat (q - start)" by blast
    moreover have "start \<le> q" using q \<open>q \<in> set ps\<close> by simp
    ultimately have "p = q" using pp(5) by simp
    then show False using Cons.prems(3) \<open>q \<in> set ps\<close> by simp
  qed
  have run: "score_loop lib tk m a start (p # ps) h w =
             (Inr h', w\<lparr>heap := heap w @ map (masked tk ids) (p # ps),
                        events := events w @ map (\<lambda>p. Forward (masked tk ids p)) (p # ps)\<rparr>)"
    by (simp add: s r)
  have here: "\<forall>r<20. h' ! r ! nat (p - start) = llr lib tk m ids p (amino_acids ! r)"
    using rest fresh cell1 pp(6) by simp
  have other: "\<forall>r<20. \<forall>j<ncols. j \<notin> (\<lambda>p. nat (p - start)) ` set (p # ps) \<longrightarrow> h' ! r ! j = h ! r ! j"
    using rest cell1 by simp
  show ?case
    using run l rl here earlier other by simp
qed

subsection \<open>A whole call\<close>

lemma np_zeros_ok:
  "0 \<le> c \<Longrightarrow> np_zeros r c = Inr (replicate r (replicate (nat c) (Finite 0)))"
  by (simp add: np_zeros_def)

lemma generate_heatmap_unfold:
  "generate_heatmap lib seq start end_arg w =
     (let tk = AutoTokenizer_from_pretrained lib model_name;
          m = EsmForMaskedLM_from_pretrained lib model_name;
          ids = encode tk seq;
          endp = end_default ids end_arg;
          w2 = w\<lparr>events := events w @ [LoadTokenizer model_name, LoadModel model_name],
                  heap := heap w @ [ids]\<rparr>
      in case np_zeros 20 (endp - start + 1) of
           Inl e \<Rightarrow> (Inl e, w2)
         | Inr h \<Rightarrow>
             (case score_loop lib tk m (length (heap w)) start [start..endp] h w2 of
                (Inl e, w3) \<Rightarrow> (Inl e, w3)
              | (Inr h', w3) \<Rightarrow>
                  (if length (py_slice seq (start - 1) endp) \<noteq> length [0..endp - start]
                   then (Inl ValueError, w3)
                   else (Inr \<lparr>data = h', xtick_locs = [0..endp - start],
                              xtick_labels = py_slice seq (start - 1) endp,
                              ytick_locs = [0..19], ytick_labels = amino_acids\<rparr>, w3))))"
  by (cases end_arg)
    (simp_all add: generate_heatmap_def alloc_def Let_def end_default_def
      cong: sum.case_cong prod.case_cong if_cong)

lemma generate_heatmap_ok:
  fixes lib seq start end_arg w V
  defines "tk \<equiv> AutoTokenizer_from_pretrained lib model_name"
    and "m \<equiv> EsmForMaskedLM_from_pretrained lib model_name"
    and "ids \<equiv> encode (AutoTokenizer_from_pretrained lib model_name) seq"
  defines "endp \<equiv> end_default ids end_arg"
  assumes wf: "wf_model m V" "wf_tokenizer tk V" and nm: "wf_numerics lib"
    and range: "0 \<le> start" "start \<le> endp" "endp < int (length ids)"
    and inr: "\<forall>p. start \<le> p \<and> p \<le> endp \<longrightarrow> 0 \<le> ids ! nat p \<and> ids ! nat p < int V"
    and labels: "length (py_slice seq (start - 1) endp) = nat (endp - start + 1)"
  shows "\<exists>fig. generate_heatmap lib seq start end_arg w =
             (Inr fig,
              w\<lparr>heap := heap w @ ids # map (masked tk ids) [start..endp],
                 events := events w @ LoadTokenizer model_name # LoadModel model_name
                             # map (\<lambda>p. Forward (masked tk ids p)) [start..endp]\<rparr>)
           \<and> length (data fig) = 20
           \<and> (\<forall>r<20. length (data fig ! r) = nat (endp - start + 1))
           \<and> (\<forall>p. start \<le> p \<and> p \<le> endp \<longrightarrow>
                 (\<forall>r<20. data fig ! r ! nat (p - start) = llr lib tk m ids p (amino_acids ! r)))
           \<and> xtick_labels fig = py_slice seq (start - 1) endp
           \<and> ytick_labels fig = amino_acids"
proof -
  let ?w2 = "w\<lparr>events := events w @ [LoadTokenizer model_name, LoadModel model_name],
                heap := heap w @ [ids]\<rparr>"
  let ?n = "nat (endp - start + 1)"
  let ?h0 = "replicate 20 (replicate ?n (Finite 0))"
  have a: "length (heap w) < length (heap ?w2)" "heap ?w2 ! length (heap w) = ids"
    by simp_all
  have d: "distinct [start..endp]" by simp
  have ps: "\<forall>p \<in> set [start..endp]. 0 \<le> p \<and> p < int (length ids) \<and> 0 \<le> ids ! nat p
              \<and> ids ! nat p < int V \<and> start \<le> p \<and> nat (p - start) < ?n"
    using range inr by auto
  have h0: "length ?h0 = 20" "\<forall>r<20. length (?h0 ! r) = ?n"
    by simp_all
  from score_loop_ok[OF a wf nm d ps h0] obtain h' where
    run: "score_loop lib tk m (length (heap w)) start [start..endp] ?h0 ?w2 =
             (Inr h', ?w2\<lparr>heap := heap ?w2 @ map (masked tk ids) [start..endp],
                        events := events ?w2 @ map (\<lambda>p. Forward (masked tk ids p)) [start..endp]\<rparr>)"
    and l: "length h' = 20"
    and rl: "\<forall>r<20. length (h' ! r) = ?n"
    and cells: "\<forall>p \<in> set [start..endp]. \<forall>r<20.
                  h' ! r ! nat (p - start) = llr lib tk m ids p (amino_acids ! r)"
    by blast
  have z: "np_zeros 20 (endp - start + 1) = Inr ?h0"
    using range by (simp add: np_zeros_ok)
  have lab: "length (py_slice seq (start - 1) endp) = length [0..endp - start]"
    using labels by simp
  have "generate_heatmap lib seq start end_arg w =
          (case np_zeros 20 (endp - start + 1) of
             Inl e \<Rightarrow> (Inl e, ?w2)
           | Inr h \<Rightarrow>
               (case score_loop lib tk m (length (heap w)) start [start..endp] h ?w2 of
                  (Inl e, w3) \<Rightarrow> (Inl e, w3)
                | (Inr h', w3) \<Rightarrow>
                    (if length (py_slice seq (start - 1) endp) \<noteq> length [0..endp - start]
                     then (Inl ValueError, w3)
                     else (Inr \<lparr>data = h', xtick_locs = [0..endp - start],
                          xtick_labels = py_slice seq (start - 1) endp,
                          ytick_locs = [0..19], ytick_labels = amino_acids\<rparr>, w3))))"
    unfolding generate_heatmap_unfold Let_def tk_def m_def ids_def endp_def ..
  also have "\<dots> =
          (Inr \<lparr>data = h', xtick_locs = [0..endp - start],
                xtick_labels = py_slice seq (start - 1) endp,
                ytick_locs = [0..19], ytick_labels = amino_acids\<rparr>,
           w\<lparr>heap := heap w @ ids # map (masked tk ids) [start..endp],
              events := events w @ LoadTokenizer model_name # LoadModel model_name
                          # map (\<lambda>p. Forward (masked tk ids p)) [start..endp]\<rparr>)"
    apply (simp only: z sum.case)
    apply (simp only: run prod.case sum.case lab)
    apply simp
    done
  finally have "generate_heatmap lib seq start end_arg w =
          (Inr \<lparr>data = h', xtick_locs = [0..endp - start],
                xtick_labels = py_slice seq (start - 1) endp,
                ytick_locs = [0..19], ytick_labels = amino_acids\<rparr>,
           w\<lparr>heap := heap w @ ids # map (masked tk ids) [start..endp],
              events := events w @ LoadTokenizer model_name # LoadModel model_name
                          # map (\<lambda>p. Forward (masked tk ids p)) [start..endp]\<rparr>)" .
  then show ?thesis
    using l rl cells by simp
qed

lemma py_slice_length:
  assumes "1 \<le> start" "start \<le> endp" "endp \<le> int (length xs)"
  shows "length (py_slice xs (start - 1) endp) = nat (endp - start + 1)"
  using assms by (simp add: py_slice_def Let_def min_def) linarith

lemma frames_nth:
  assumes "frames tk s" "1 \<le> p" "p \<le> int (length s)"
  shows "encode tk s ! nat p = convert_tokens_to_ids tk [s ! nat (p - 1)]"
proof -
  let ?ids = "encode tk s"
  have len: "length ?ids = length s + 2" and mid: "butlast (tl ?ids) = map (\<lambda>c. convert_tokens_to_ids tk [c]) s"
    using assms(1) by (simp_all add: frames_def)
  have k: "nat (p - 1) < length s" using assms(2,3) by simp
  have "butlast (tl ?ids) ! nat (p - 1) = tl ?ids ! nat (p - 1)"
    using k len by (simp add: nth_butlast)
  also have "\<dots> = ?ids ! Suc (nat (p - 1))"
    using k len by (simp add: nth_tl)
  also have "Suc (nat (p - 1)) = nat p" using assms(2) by simp
  finally show ?thesis using mid k by simp
qed

subsection \<open>What a call leaves behind, and what its result depends on\<close>

lemma prefix_nth: "prefix xs ys \<Longrightarrow> a < length xs \<Longrightarrow> a < length ys \<and> ys ! a = xs ! a"
  by (auto simp: prefix_def nth_append)

lemma score_position_grows:
  "prefix (heap w) (heap (snd (score_position lib tk m a start p h w)))
   \<and> prefix (events w) (events (snd (score_position lib tk m a start p h w)))"
  by (auto simp: score_position_def clone_def alloc_def tensor_set_def forward_def Let_def
      split: sum.splits prod.splits)

lemma score_loop_grows:
  "prefix (heap w) (heap (snd (score_loop lib tk m a start ps h w)))
   \<and> prefix (events w) (events (snd (score_loop lib tk m a start ps h w)))"
proof (induction ps arbitrary: h w)
  case Nil
  show ?case by simp
next
  case (Cons p ps)
  obtain r w' where s: "score_position lib tk m a start p h w = (r, w')"
    by (cases "score_position lib tk m a start p h w")
  have g: "prefix (heap w) (heap w')" "prefix (events w) (events w')"
    using score_position_grows[of w lib tk m a start p h] s by simp_all
  show ?case
  proof (cases r)
    case (Inl e)
    then show ?thesis using s g by simp
  next
    case (Inr h')
    have "prefix (heap w') (heap (snd (score_loop lib tk m a start ps h' w')))"
      and "prefix (events w') (events (snd (score_loop lib tk m a start ps h' w')))"
      using Cons.IH[of w' h'] by simp_all
    then show ?thesis
      using s Inr g by (auto intro: prefix_order.trans)
  qed
qed

lemma score_position_same:
  assumes "a1 < length (heap w1)" "a2 < length (heap w2)" "heap w1 ! a1 = heap w2 ! a2"
  shows "fst (score_position lib tk m a1 start p h w1) = fst (score_position lib tk m a2 start p h w2)"
  using assms
  by (auto simp: score_position_def clone_def alloc_def tensor_set_def forward_def Let_def
      nth_append split: sum.splits prod.splits)

lemma score_loop_same:
  assumes "a1 < length (heap w1)" "a2 < length (heap w2)" "heap w1 ! a1 = heap w2 ! a2"
  shows "fst (score_loop lib tk m a1 start ps h w1) = fst (score_loop lib tk m a2 start ps h w2)"
  using assms
proof (induction ps arbitrary: h w1 w2)
  case Nil
  show ?case by simp
next
  case (Cons p ps)
  obtain r1 v1 where s1: "score_position lib tk m a1 start p h w1 = (r1, v1)"
    by (cases "score_position lib tk m a1 start p h w1")
  obtain r2 v2 where s2: "score_position lib tk m a2 start p h w2 = (r2, v2)"
    by (cases "score_position lib tk m a2 start p h w2")
  have r: "r1 = r2"
    using score_position_same[OF Cons.prems, of lib tk m start p h] s1 s2 by simp
  have g1: "prefix (heap w1) (heap v1)"
    using score_position_grows[of w1 lib tk m a1 start p h] s1 by simp
  have g2: "prefix (heap w2) (heap v2)"
    using score_position_grows[of w2 lib tk m a2 start p h] s2 by simp
  have k1: "a1 < length (heap v1)" "heap v1 ! a1 = heap w1 ! a1"
    using prefix_nth[OF g1 Cons.prems(1)] by simp_all
  have k2: "a2 < length (heap v2)" "heap v2 ! a2 = heap w2 ! a2"
    using prefix_nth[OF g2 Cons.prems(2)] by simp_all
  show ?case
  proof (cases r1)
    case (Inl e)
    with r have e: "r1 = Inl e" "r2 = Inl e" by simp_all
    show ?thesis by (simp add: s1[unfolded e(1)] s2[unfolded e(2)])
  next
    case (Inr h')
    with r have e: "r1 = Inr h'" "r2 = Inr h'" by simp_all
    have "fst (score_loop lib tk m a1 start ps h' v1) = fst (score_loop lib tk m a2 start ps h' v2)"
      using Cons.IH[of v1 v2 h'] k1 k2 Cons.prems(3) by simp
    then show ?thesis by (simp add: s1[unfolded e(1)] s2[unfolded e(2)])
  qed
qed

lemma generate_heatmap_grows:
  "prefix (heap w) (heap (snd (generate_heatmap lib seq start end_arg w)))
   \<and> prefix (events w @ [LoadTokenizer model_name, LoadModel model_name])
        (events (snd (generate_heatmap lib seq start end_arg w)))"
proof -
  let ?tk = "AutoTokenizer_from_pretrained lib model_name"
  let ?m = "EsmForMaskedLM_from_pretrained lib model_name"
  let ?ids = "encode ?tk seq"
  let ?endp = "end_default ?ids end_arg"
  let ?w2 = "w\<lparr>events := events w @ [LoadTokenizer model_name, LoadModel model_name],
                heap := heap w @ [?ids]\<rparr>"
  have base: "prefix (heap w) (heap ?w2)"
    "prefix (events w @ [LoadTokenizer model_name, LoadModel model_name]) (events ?w2)"
    by simp_all
  show ?thesis
  proof (cases "np_zeros 20 (?endp - start + 1)")
    case (Inl e)
    then show ?thesis
      using base by (simp add: generate_heatmap_unfold Let_def)
  next
    case (Inr h)
    obtain r w3 where s: "score_loop lib ?tk ?m (length (heap w)) start [start..?endp] h ?w2 = (r, w3)"
      by (cases "score_loop lib ?tk ?m (length (heap w)) start [start..?endp] h ?w2")
    have g: "prefix (heap ?w2) (heap w3)" "prefix (events ?w2) (events w3)"
      using score_loop_grows[of ?w2 lib ?tk ?m "length (heap w)" start "[start..?endp]" h] s
      by simp_all
    have e: "snd (generate_heatmap lib seq start end_arg w) = w3"
      using Inr s by (cases r) (simp_all add: generate_heatmap_unfold Let_def)
    have "prefix (heap w) (heap w3)"
      using base(1) g(1) by (rule prefix_order.trans)
    moreover have "prefix (events w @ [LoadTokenizer model_name, LoadModel model_name]) (events w3)"
      using base(2) g(2) by (rule prefix_order.trans)
    ultimately show ?thesis
      unfolding e by simp
  qed
qed

lemma generate_heatmap_same:
  "fst (generate_heatmap lib seq start end_arg w1) = fst (generate_heatmap lib seq start end_arg w2)"
proof -
  let ?tk = "AutoTokenizer_from_pretrained lib model_name"
  let ?m = "EsmForMaskedLM_from_pretrained lib model_name"
  let ?ids = "encode ?tk seq"
  let ?endp = "end_default ?ids end_arg"
  let ?v1 = "w1\<lparr>events := events w1 @ [LoadTokenizer model_name, LoadModel model_name],
                heap := heap w1 @ [?ids]\<rparr>"
  let ?v2 = "w2\<lparr>events := events w2 @ [LoadTokenizer model_name, LoadModel model_name],
                heap := heap w2 @ [?ids]\<rparr>"
  show ?thesis
  proof (cases "np_zeros 20 (?endp - start + 1)")
    case (Inl e)
    then show ?thesis by (simp add: generate_heatmap_unfold Let_def)
  next
    case (Inr h)
    obtain r1 u1 where s1: "score_loop lib ?tk ?m (length (heap w1)) start [start..?endp] h ?v1 = (r1, u1)"
      by (cases "score_loop lib ?tk ?m (length (heap w1)) start [start..?endp] h ?v1")
    obtain r2 u2 where s2: "score_loop lib ?tk ?m (length (heap w2)) start [start..?endp] h ?v2 = (r2, u2)"
      by (cases "score_loop lib ?tk ?m (length (heap w2)) start [start..?endp] h ?v2")
    have "fst (score_loop lib ?tk ?m (length (heap w1)) start [start..?endp] h ?v1)
          = fst (score_loop lib ?tk ?m (length (heap w2)) start [start..?endp] h ?v2)"
      by (rule score_loop_same) simp_all
    then have r: "r1 = r2" using s1 s2 by simp
    show ?thesis
    proof (cases r1)
      case (Inl e)
      with r have e: "r1 = Inl e" "r2 = Inl e" by simp_all
      show ?thesis
        by (simp add: generate_heatmap_unfold Let_def Inr s1[unfolded e(1)] s2[unfolded e(2)])
    next
      case (Inr h')
      with r have e: "r1 = Inr h'" "r2 = Inr h'" by simp_all
      show ?thesis
        by (simp add: generate_heatmap_unfold Let_def \<open>np_zeros 20 (?endp - start + 1) = Inr h\<close>
            s1[unfolded e(1)] s2[unfolded e(2)])
    qed
  qed
qed

subsection \<open>A valid request\<close>

lemma valid_request_run:
  fixes lib V s start endp w
  defines "tk \<equiv> AutoTokenizer_from_pretrained lib model_name"
    and "m \<equiv> EsmForMaskedLM_from_pretrained lib model_name"
    and "ids \<equiv> encode (AutoTokenizer_from_pretrained lib model_name) s"
  assumes v: "valid_request lib V s start endp"
  shows "\<exists>fig. generate_heatmap lib s start (Some endp) w =
             (Inr fig,
              w\<lparr>heap := heap w @ ids # map (masked tk ids) [start..endp],
                 events := events w @ LoadTokenizer model_name # LoadModel model_name
                             # map (\<lambda>p. Forward (masked tk ids p)) [start..endp]\<rparr>)
           \<and> length (data fig) = 20
           \<and> (\<forall>r<20. length (data fig ! r) = nat (endp - start + 1))
           \<and> (\<forall>p. start \<le> p \<and> p \<le> endp \<longrightarrow>
                 (\<forall>r<20. data fig ! r ! nat (p - start) = llr lib tk m ids p (amino_acids ! r)))
           \<and> (\<forall>p. start \<le> p \<and> p \<le> endp \<longrightarrow>
                 ids ! nat p = convert_tokens_to_ids tk [s ! nat (p - 1)])"
proof -
  have wf: "wf_model m V" "wf_tokenizer tk V" and nm: "wf_numerics lib"
    and fr: "frames tk s" and al: "set s \<subseteq> set amino_acids"
    and rg: "1 \<le> start" "start \<le> endp" "endp \<le> int (length s)"
    using v by (simp_all add: valid_request_def tk_def m_def)
  have len: "length ids = length s + 2"
    using fr by (simp add: frames_def ids_def tk_def)
  have tok: "\<forall>p. start \<le> p \<and> p \<le> endp \<longrightarrow> ids ! nat p = convert_tokens_to_ids tk [s ! nat (p - 1)]"
    using frames_nth[OF fr] rg by (simp add: ids_def tk_def)
  have inr: "\<forall>p. start \<le> p \<and> p \<le> endp \<longrightarrow> 0 \<le> ids ! nat p \<and> ids ! nat p < int V"
  proof (intro allI impI)
    fix p assume p: "start \<le> p \<and> p \<le> endp"
    then have "nat (p - 1) < length s" using rg by linarith
    then have "s ! nat (p - 1) \<in> set amino_acids" using al by auto
    then have "0 \<le> convert_tokens_to_ids tk [s ! nat (p - 1)]
               \<and> convert_tokens_to_ids tk [s ! nat (p - 1)] < int V"
      using wf(2) by (simp add: wf_tokenizer_def)
    then show "0 \<le> ids ! nat p \<and> ids ! nat p < int V"
      using tok p by simp
  qed
  have e: "end_default ids (Some endp) = endp"
    by (simp add: end_default_def)
  have r1: "0 \<le> start" "start \<le> end_default ids (Some endp)"
    "end_default ids (Some endp) < int (length ids)"
    using rg len by (simp_all add: e)
  have inr': "\<forall>p. start \<le> p \<and> p \<le> end_default ids (Some endp) \<longrightarrow>
                0 \<le> ids ! nat p \<and> ids ! nat p < int V"
    using inr by (simp add: e)
  have lab: "length (py_slice s (start - 1) (end_default ids (Some endp)))
               = nat (end_default ids (Some endp) - start + 1)"
    unfolding e using rg by (rule py_slice_length)
  show ?thesis
    using generate_heatmap_ok[where lib=lib and V=V and start=start and seq=s
          and end_arg="Some endp" and w=w,
        OF wf[unfolded tk_def m_def] nm r1[unfolded ids_def] inr'[unfolded ids_def]
           lab[unfolded ids_def]] tok
    unfolding tk_def m_def ids_def e[unfolded ids_def]
    by blast
qed

subsection \<open>The instance is well formed\<close>

lemma wf_previous_token_model: "wf_model (previous_token_model c) 33"
  by (auto simp: wf_model_def previous_token_model_def)

lemma wf_esm_tokenizer: "wf_tokenizer esm_tokenizer 33"
  by (simp add: wf_tokenizer_def esm_tokenizer_def esm_token_to_id_def esm_vocab_def amino_acids_def)

lemma those_length: "those ys = Some xs \<Longrightarrow> length xs = length ys"
  by (induction ys arbitrary: xs) (auto split: option.splits)

lemma those_finite: "those (map the_finite (map Finite xs)) = Some xs"
  by (induction xs) simp_all

lemma length_f32_softmax: "length (f32_softmax v) = length v"
  by (auto simp: f32_softmax_def Let_def those_length split: option.splits)

lemma demo_loads:
  "AutoTokenizer_from_pretrained (demo_libraries c) n = esm_tokenizer"
  "EsmForMaskedLM_from_pretrained (demo_libraries c) n = previous_token_model c"
  "torch_softmax (demo_libraries c) = f32_softmax"
  "torch_log (demo_libraries c) = f32_log"
  "float_round (demo_libraries c) = Finite"
  by (simp_all add: demo_libraries_def)

lemma wf_demo_numerics: "wf_numerics (demo_libraries c)"
  by (simp add: wf_numerics_def demo_loads length_f32_softmax f32_log_def)

lemma encode_demo: "encode esm_tokenizer ''MAPLRKT'' = [0, 20, 5, 14, 4, 10, 15, 11, 2]"
  by (simp add: esm_tokenizer_def esm_vocab_def)

lemma encode_MXA: "encode esm_tokenizer ''MXA'' = [0, 20, 24, 5, 2]"
  by (simp add: esm_tokenizer_def esm_vocab_def)

lemma encode_MJJA: "encode esm_tokenizer ''MJJA'' = [0, 20, 3, 5, 2]"
  by (simp add: esm_tokenizer_def esm_vocab_def)

lemma esm_mask: "mask_token_id esm_tokenizer = 32"
  by (simp add: esm_tokenizer_def)

lemma esm_ids:
  "convert_tokens_to_ids esm_tokenizer ''M'' = 20"
  "convert_tokens_to_ids esm_tokenizer ''A'' = 5"
  "convert_tokens_to_ids esm_tokenizer ''X'' = 24"
  by (simp_all add: esm_tokenizer_def esm_token_to_id_def esm_vocab_def)

lemma frames_demo: "frames esm_tokenizer ''MAPLRKT''"
  by (simp add: frames_def encode_demo)
    (simp add: esm_tokenizer_def esm_token_to_id_def esm_vocab_def)

lemma demo_masked:
  "[0, 20, 5, 14, 4, 10, 15, 11, 2::int][Suc 0 := 32] = [0, 32, 5, 14, 4, 10, 15, 11, 2]"
  "[0, 20, 5, 14, 4, 10, 15, 11, 2::int][2 := 32] = [0, 20, 32, 14, 4, 10, 15, 11, 2]"
  "[0, 20, 5, 14, 4, 10, 15, 11, 2::int][3 := 32] = [0, 20, 5, 32, 4, 10, 15, 11, 2]"
  by (simp_all add: numeral_2_eq_2 numeral_3_eq_3)

lemma demo_forwards:
  "map (\<lambda>q. Forward ([0, 20, 5, 14, 4, 10, 15, 11, 2][nat q := 32])) [1..3] =
     [Forward [0, 32, 5, 14, 4, 10, 15, 11, 2],
      Forward [0, 20, 32, 14, 4, 10, 15, 11, 2],
      Forward [0, 20, 5, 32, 4, 10, 15, 11, 2]]"
  by (simp add: upto.simps demo_masked)

lemma demo_clones:
  "map (\<lambda>q. [0, 20, 5, 14, 4, 10, 15, 11, 2][nat q := 32]) [1..3] =
     [[0, 32, 5, 14, 4, 10, 15, 11, 2],
      [0, 20, 32, 14, 4, 10, 15, 11, 2],
      [0, 20, 5, 32, 4, 10, 15, 11, 2::int]]"
  by (simp add: upto.simps demo_masked)

lemma valid_demo_range:
  "1 \<le> a \<Longrightarrow> a \<le> b \<Longrightarrow> b \<le> 7 \<Longrightarrow> valid_request (demo_libraries c) 33 ''MAPLRKT'' a b"
  by (simp add: valid_request_def demo_loads wf_demo_numerics wf_previous_token_model
      wf_esm_tokenizer frames_demo amino_acids_def)

lemma valid_demo: "valid_request (demo_libraries 1) 33 ''MAPLRKT'' 1 3"
  by (rule valid_demo_range) simp_all

lemma py_slice_empty: "py_slice xs k k = []"
  by (simp add: py_slice_def Let_def)

subsection \<open>The arithmetic of the instance\<close>

lemma elem_le_sum_list:
  fixes es :: "real list"
  shows "\<forall>y \<in> set es. 0 \<le> y \<Longrightarrow> e \<in> set es \<Longrightarrow> e \<le> sum_list es"
proof (induction es)
  case Nil
  then show ?case by simp
next
  case (Cons x es)
  have "0 \<le> sum_list es" using Cons.prems(1) by (intro sum_list_nonneg) simp
  then show ?case using Cons by auto
qed

lemma exp32_nonneg: "0 \<le> exp32 x"
  by (simp add: exp32_def)

lemma f32_log_softmax_nth:
  assumes "k < length xs"
  shows "f32_log (f32_softmax (map Finite xs)) ! k =
           f32_log1 (Finite (exp32 (xs ! k - Max (set xs))
                              / sum_list (map (\<lambda>x. exp32 (x - Max (set xs))) xs)))"
proof -
  have "f32_softmax (map Finite xs) =
          map (\<lambda>e. Finite (e / sum_list (map (\<lambda>x. exp32 (x - Max (set xs))) xs)))
            (map (\<lambda>x. exp32 (x - Max (set xs))) xs)"
    by (simp only: f32_softmax_def those_finite option.case Let_def)
  then show ?thesis
    using assms by (simp add: f32_log_def)
qed

lemma f32_underflow:
  assumes "k < length xs" "xs ! k - Max (set xs) < - 104"
  shows "f32_log (f32_softmax (map Finite xs)) ! k = NegInf"
  using assms by (simp add: f32_log_softmax_nth exp32_def)

lemma f32_finite:
  assumes "k < length xs" "\<not> xs ! k - Max (set xs) < - 104"
  shows "is_finite (f32_log (f32_softmax (map Finite xs)) ! k)"
proof -
  let ?es = "map (\<lambda>x. exp32 (x - Max (set xs))) xs"
  have e: "exp32 (xs ! k - Max (set xs)) = exp (xs ! k - Max (set xs))"
    using assms(2) by (simp add: exp32_def)
  have "exp32 (xs ! k - Max (set xs)) \<in> set ?es"
    using assms(1) by (auto simp: in_set_conv_nth intro!: exI[of _ k])
  moreover have "\<forall>y \<in> set ?es. 0 \<le> y"
    by (auto simp: exp32_nonneg)
  ultimately have "exp32 (xs ! k - Max (set xs)) \<le> sum_list ?es"
    using elem_le_sum_list by blast
  then have "0 < sum_list ?es"
    unfolding e using exp_gt_zero[of "xs ! k - Max (set xs)"] by linarith
  then have "0 < exp32 (xs ! k - Max (set xs)) / sum_list ?es"
    unfolding e by simp
  then obtain q where q: "exp32 (xs ! k - Max (set xs)) / sum_list ?es = q" "0 < q"
    by blast
  show ?thesis
    unfolding f32_log_softmax_nth[OF assms(1)] q(1) using q(2) by simp
qed

lemma previous_token_row:
  "k < length ids \<Longrightarrow> 0 < k \<Longrightarrow>
   previous_token_model c ids ! k
     = map Finite (map (\<lambda>v. if v = ids ! (k - 1) then c else 0) [0..32])"
  by (cases k) (simp_all add: previous_token_model_def)

lemma one_hot_nth:
  "0 \<le> t \<Longrightarrow> t \<le> 32 \<Longrightarrow>
   map (\<lambda>v. if v = c then h else (0::real)) [0..32] ! nat t = (if t = c then h else 0)"
  by (simp add: nth_upto)

lemma one_hot_Max:
  assumes "0 \<le> c" "c \<le> 32" "0 \<le> h"
  shows "Max (set (map (\<lambda>v. if v = c then h else (0::real)) [0..32])) = h"
proof (rule Max_eqI)
  show "finite (set (map (\<lambda>v. if v = c then h else (0::real)) [0..32]))" by simp
  show "\<And>y. y \<in> set (map (\<lambda>v. if v = c then h else (0::real)) [0..32]) \<Longrightarrow> y \<le> h"
    using assms(3) by auto
  show "h \<in> set (map (\<lambda>v. if v = c then h else (0::real)) [0..32])"
    using assms(1,2) by (auto simp: image_iff intro!: bexI[of _ c])
qed

lemma demo_lp_finite:
  "is_finite (f32_log (f32_softmax
      (previous_token_model 1 [0, 32, 5, 14, 4, 10, 15, 11, 2] ! 1)) ! 20)"
proof -
  let ?xs = "map (\<lambda>v. if v = 0 then 1 else (0::real)) [0..32]"
  have row: "previous_token_model 1 [0, 32, 5, 14, 4, 10, 15, 11, 2] ! 1 = map Finite ?xs"
    using previous_token_row[of 1 "[0, 32, 5, 14, 4, 10, 15, 11, 2]" 1] by simp
  have x: "?xs ! 20 = 0" using one_hot_nth[of 20 0 1] by simp
  have mx: "Max (set ?xs) = 1" by (rule one_hot_Max) simp_all
  have k: "20 < length ?xs" by simp
  have c: "\<not> ?xs ! 20 - Max (set ?xs) < - 104" unfolding x mx by simp
  show ?thesis
    unfolding row by (rule f32_finite[OF k c])
qed

lemma demo_lp_underflow:
  "f32_log (f32_softmax
      (previous_token_model 200 [0, 20, 32, 14, 4, 10, 15, 11, 2] ! 2)) ! 5 = NegInf"
proof -
  let ?xs = "map (\<lambda>v. if v = 20 then 200 else (0::real)) [0..32]"
  have row: "previous_token_model 200 [0, 20, 32, 14, 4, 10, 15, 11, 2] ! 2 = map Finite ?xs"
    using previous_token_row[of 2 "[0, 20, 32, 14, 4, 10, 15, 11, 2]" 200] by simp
  have x: "?xs ! 5 = 0" using one_hot_nth[of 5 20 200] by simp
  have mx: "Max (set ?xs) = 200" by (rule one_hot_Max) simp_all
  have k: "5 < length ?xs" by simp
  have c: "?xs ! 5 - Max (set ?xs) < - 104" unfolding x mx by simp
  show ?thesis
    unfolding row by (rule f32_underflow[OF k c])
qed

subsection \<open>Sequences that the tokenizer does not frame\<close>

lemma generate_heatmap_in_vocabulary:
  fixes lib V s start endp w
  defines "tk \<equiv> AutoTokenizer_from_pretrained lib model_name"
    and "m \<equiv> EsmForMaskedLM_from_pretrained lib model_name"
    and "ids \<equiv> encode (AutoTokenizer_from_pretrained lib model_name) s"
  assumes "wf_numerics lib" "wf_model m V" "wf_tokenizer tk V"
    and "\<forall>t \<in> set ids. 0 \<le> t \<and> t < int V"
    and "1 \<le> start" "start \<le> endp" "endp \<le> int (length ids) - 2" "endp \<le> int (length s)"
  shows "\<exists>fig w'. generate_heatmap lib s start (Some endp) w = (Inr fig, w')
           \<and> map length (data fig) = replicate 20 (nat (endp - start + 1))
           \<and> (\<forall>p i. start \<le> p \<and> p \<le> endp \<and> i < 20 \<longrightarrow>
                 data fig ! i ! nat (p - start) =
                   py_sub (float_round lib)
                     (log_probs_at lib tk m ids p ! nat (convert_tokens_to_ids tk [amino_acids ! i]))
                     (log_probs_at lib tk m ids p ! nat (ids ! nat p)))"
proof -
  have e: "end_default ids (Some endp) = endp"
    by (simp add: end_default_def)
  have r: "0 \<le> start" "start \<le> end_default ids (Some endp)"
    "end_default ids (Some endp) < int (length ids)"
    using assms(8-10) by (simp_all add: e)
  have inr: "\<forall>p. start \<le> p \<and> p \<le> end_default ids (Some endp) \<longrightarrow>
                0 \<le> ids ! nat p \<and> ids ! nat p < int V"
  proof (intro allI impI)
    fix p assume "start \<le> p \<and> p \<le> end_default ids (Some endp)"
    then have "nat p < length ids" using r assms(10) unfolding e by linarith
    then have "ids ! nat p \<in> set ids" by simp
    then show "0 \<le> ids ! nat p \<and> ids ! nat p < int V" using assms(7) by blast
  qed
  have lab: "length (py_slice s (start - 1) (end_default ids (Some endp)))
               = nat (end_default ids (Some endp) - start + 1)"
    unfolding e using assms(8,9,11) by (rule py_slice_length)
  from generate_heatmap_ok[where lib=lib and V=V and start=start and seq=s
          and end_arg="Some endp" and w=w,
        OF assms(5,6)[unfolded tk_def m_def] assms(4) r[unfolded ids_def] inr[unfolded ids_def]
           lab[unfolded ids_def]]
  obtain fig w' where
    run: "generate_heatmap lib s start (Some endp) w = (Inr fig, w')"
    and l: "length (data fig) = 20"
    and rl: "\<forall>r<20. length (data fig ! r) = nat (endp - start + 1)"
    and cells: "\<forall>p. start \<le> p \<and> p \<le> endp \<longrightarrow>
                 (\<forall>r<20. data fig ! r ! nat (p - start) = llr lib tk m ids p (amino_acids ! r))"
    unfolding tk_def m_def ids_def e[unfolded ids_def] by blast
  have "map length (data fig) = replicate 20 (nat (endp - start + 1))"
    using l rl by (auto intro!: replicate_eqI simp: in_set_conv_nth)
  then show ?thesis using run cells by (auto simp: llr_def)
qed

subsection \<open>The slider callback\<close>

text \<open>
  C7. A request of the slider callback with \<open>start > end\<close> is skipped: nothing is returned
  to display, no error is raised, and the world is the one before the call (no load, no
  tokenization, no forward pass).
\<close>

theorem update_heatmap_skips:
  "endp < start \<Longrightarrow> update_heatmap lib protein_sequence start endp w = (Inr None, w)"
  by (simp add: update_heatmap_def)

theorem update_heatmap_skips_witness:
  "(1::int) < 2
   \<and> update_heatmap (demo_libraries 1) ''MAPLRKT'' 2 1 empty_world = (Inr None, empty_world)"
  using update_heatmap_skips [of 1 2 "demo_libraries 1" "''MAPLRKT''" empty_world] by simp

subsection \<open>The table of a valid request\<close>

text \<open>
  C1. For a sequence over the twenty letters and a valid range, the call returns a figure,
  the trace of the call is the two loads followed by exactly one forward pass per position,
  each on the token row with that position replaced by the mask token, and the cell of
  amino acid \<open>amino_acids ! i\<close> in column \<open>p - start\<close> is the log of the softmax of the logits
  that the pass for \<open>p\<close> gives at \<open>p\<close>, read at the id of the amino acid, minus the same
  read at the id of the residue that the sequence has at \<open>p\<close>.
\<close>

theorem llr_cell:
  fixes lib V s start endp p i w
  defines "tk \<equiv> AutoTokenizer_from_pretrained lib model_name"
    and "m \<equiv> EsmForMaskedLM_from_pretrained lib model_name"
    and "ids \<equiv> encode (AutoTokenizer_from_pretrained lib model_name) s"
  defines "lp \<equiv> torch_log lib (torch_softmax lib (m (ids[nat p := mask_token_id tk]) ! nat p))"
  assumes "valid_request lib V s start endp" "start \<le> p" "p \<le> endp" "i < 20"
  shows "\<exists>fig w'. generate_heatmap lib s start (Some endp) w = (Inr fig, w')
           \<and> events w' = events w @ LoadTokenizer model_name # LoadModel model_name
                 # map (\<lambda>q. Forward (ids[nat q := mask_token_id tk])) [start..endp]
           \<and> data fig ! i ! nat (p - start) =
                 py_sub (float_round lib)
                   (lp ! nat (convert_tokens_to_ids tk [amino_acids ! i]))
                   (lp ! nat (convert_tokens_to_ids tk [s ! nat (p - 1)]))"
proof -
  from valid_request_run[OF assms(5), of w] obtain fig where
    run: "generate_heatmap lib s start (Some endp) w =
             (Inr fig,
              w\<lparr>heap := heap w @ ids # map (masked tk ids) [start..endp],
                 events := events w @ LoadTokenizer model_name # LoadModel model_name
                             # map (\<lambda>p. Forward (masked tk ids p)) [start..endp]\<rparr>)"
    and cells: "\<forall>p. start \<le> p \<and> p \<le> endp \<longrightarrow>
                 (\<forall>r<20. data fig ! r ! nat (p - start) = llr lib tk m ids p (amino_acids ! r))"
    and tok: "\<forall>p. start \<le> p \<and> p \<le> endp \<longrightarrow>
                 ids ! nat p = convert_tokens_to_ids tk [s ! nat (p - 1)]"
    unfolding tk_def m_def ids_def by blast
  have "data fig ! i ! nat (p - start) = llr lib tk m ids p (amino_acids ! i)"
    using cells assms(6-8) by simp
  moreover have "ids ! nat p = convert_tokens_to_ids tk [s ! nat (p - 1)]"
    using tok assms(6,7) by simp
  ultimately have "data fig ! i ! nat (p - start) =
                 py_sub (float_round lib)
                   (lp ! nat (convert_tokens_to_ids tk [amino_acids ! i]))
                   (lp ! nat (convert_tokens_to_ids tk [s ! nat (p - 1)]))"
    by (simp add: llr_def log_probs_at_def masked_def lp_def)
  then show ?thesis
    using run by (simp add: masked_def)
qed

theorem llr_cell_witness:
  "valid_request (demo_libraries 1) 33 ''MAPLRKT'' 1 3
   \<and> (\<exists>fig w'. generate_heatmap (demo_libraries 1) ''MAPLRKT'' 1 (Some 3) empty_world
                  = (Inr fig, w')
         \<and> events w' =
             [LoadTokenizer model_name, LoadModel model_name,
              Forward [0, 32, 5, 14, 4, 10, 15, 11, 2],
              Forward [0, 20, 32, 14, 4, 10, 15, 11, 2],
              Forward [0, 20, 5, 32, 4, 10, 15, 11, 2]]
         \<and> data fig ! 10 ! 1 =
             py_sub Finite
               (f32_log (f32_softmax
                  (previous_token_model 1 [0, 20, 32, 14, 4, 10, 15, 11, 2] ! 2)) ! 20)
               (f32_log (f32_softmax
                  (previous_token_model 1 [0, 20, 32, 14, 4, 10, 15, 11, 2] ! 2)) ! 5))"
  using valid_demo
    llr_cell [where lib = "demo_libraries 1" and V = 33 and s = "''MAPLRKT''" and start = 1
      and endp = 3 and p = 2 and i = 10 and w = empty_world, OF valid_demo]
  by (simp add: demo_loads encode_demo esm_mask esm_ids amino_acids_def empty_world_def
      demo_forwards demo_masked del: list_update.simps)

text \<open>
  C3, as amended. For a valid request and a position \<open>p\<close> of the range at which the
  log-probability of the wild type (the log of the softmax, read at the id that the token
  row holds at \<open>p\<close>) is finite, the cell in the row of the residue that the sequence has
  at \<open>p\<close> and in column \<open>p - start\<close> is exactly 0. (The rounding of the subtraction is
  taken to leave 0 as it is, as IEEE rounding does.)
\<close>

theorem wild_type_zero:
  fixes lib V s start endp p i w
  defines "tk \<equiv> AutoTokenizer_from_pretrained lib model_name"
    and "m \<equiv> EsmForMaskedLM_from_pretrained lib model_name"
    and "ids \<equiv> encode (AutoTokenizer_from_pretrained lib model_name) s"
  defines "lp \<equiv> torch_log lib (torch_softmax lib (m (ids[nat p := mask_token_id tk]) ! nat p))"
  assumes "valid_request lib V s start endp" "start \<le> p" "p \<le> endp"
    and "i < 20" "amino_acids ! i = s ! nat (p - 1)"
    and "is_finite (lp ! nat (ids ! nat p))"
    and "float_round lib 0 = Finite 0"
  shows "\<exists>fig w'. generate_heatmap lib s start (Some endp) w = (Inr fig, w')
           \<and> data fig ! i ! nat (p - start) = Finite 0"
proof -
  from valid_request_run[OF assms(5), of w] obtain fig w' where
    run: "generate_heatmap lib s start (Some endp) w = (Inr fig, w')"
    and cells: "\<forall>p. start \<le> p \<and> p \<le> endp \<longrightarrow>
                 (\<forall>r<20. data fig ! r ! nat (p - start) = llr lib tk m ids p (amino_acids ! r))"
    and tok: "\<forall>p. start \<le> p \<and> p \<le> endp \<longrightarrow>
                 ids ! nat p = convert_tokens_to_ids tk [s ! nat (p - 1)]"
    unfolding tk_def m_def ids_def by blast
  have rnd: "float_round lib 0 = Finite 0"
    by (rule assms(11))
  obtain x where x: "lp ! nat (ids ! nat p) = Finite x"
    using assms(10) by (cases "lp ! nat (ids ! nat p)") simp_all
  have wt: "convert_tokens_to_ids tk [amino_acids ! i] = ids ! nat p"
    using tok assms(6,7,9) by simp
  have "data fig ! i ! nat (p - start) = llr lib tk m ids p (amino_acids ! i)"
    using cells assms(6-8) by simp
  also have "\<dots> = py_sub (float_round lib) (lp ! nat (ids ! nat p)) (lp ! nat (ids ! nat p))"
    by (simp add: llr_def log_probs_at_def masked_def lp_def wt)
  also have "\<dots> = Finite 0"
    by (simp add: x rnd)
  finally show ?thesis using run by simp
qed

theorem wild_type_zero_witness:
  "valid_request (demo_libraries 1) 33 ''MAPLRKT'' 1 3 \<and> amino_acids ! 10 = ''MAPLRKT'' ! 0
   \<and> float_round (demo_libraries 1) 0 = Finite 0
   \<and> is_finite (f32_log (f32_softmax
        (previous_token_model 1 [0, 32, 5, 14, 4, 10, 15, 11, 2] ! 1)) ! 20)
   \<and> (\<exists>fig w'. generate_heatmap (demo_libraries 1) ''MAPLRKT'' 1 (Some 3) empty_world
                  = (Inr fig, w')
         \<and> data fig ! 10 ! 0 = Finite 0)"
  using valid_demo demo_lp_finite
    wild_type_zero [where lib = "demo_libraries 1" and V = 33 and s = "''MAPLRKT''" and start = 1
      and endp = 3 and p = 1 and i = 10 and w = empty_world, OF valid_demo]
  by (simp add: demo_loads encode_demo esm_mask amino_acids_def demo_masked
      del: list_update.simps)

text \<open>
  The claim as first stated has no condition. Where the probability of the wild type
  underflows to 0 its log is \<open>-inf\<close>, and the cell is the NaN of \<open>-inf - (-inf)\<close>: with a
  logit of 200 for the token before the position, position 2 of \<^verbatim>\<open>MAPLRKT\<close> has NaN in
  the row of its own residue \<^verbatim>\<open>A\<close>.
\<close>

theorem wild_type_zero_counterexample:
  "valid_request (demo_libraries 200) 33 ''MAPLRKT'' 1 3
   \<and> amino_acids ! 0 = ''MAPLRKT'' ! nat (2 - 1)
   \<and> \<not> isl (fst (generate_heatmap (demo_libraries 200) ''MAPLRKT'' 1 (Some 3) empty_world))
   \<and> data (projr (fst (generate_heatmap (demo_libraries 200) ''MAPLRKT'' 1 (Some 3) empty_world)))
        ! 0 ! nat (2 - 1) = NaN"
proof -
  have v: "valid_request (demo_libraries 200) 33 ''MAPLRKT'' 1 3"
    by (rule valid_demo_range) simp_all
  from valid_request_run[OF v, of empty_world] obtain fig w' where
    run: "generate_heatmap (demo_libraries 200) ''MAPLRKT'' 1 (Some 3) empty_world = (Inr fig, w')"
    and cells: "\<forall>p. 1 \<le> p \<and> p \<le> 3 \<longrightarrow>
                 (\<forall>r<20. data fig ! r ! nat (p - 1) =
                    llr (demo_libraries 200) esm_tokenizer (previous_token_model 200)
                      [0, 20, 5, 14, 4, 10, 15, 11, 2] p (amino_acids ! r))"
    unfolding demo_loads encode_demo by blast
  have "data fig ! 0 ! nat (2 - 1) =
          llr (demo_libraries 200) esm_tokenizer (previous_token_model 200)
            [0, 20, 5, 14, 4, 10, 15, 11, 2] 2 (amino_acids ! 0)"
    using cells[rule_format, of 2 0] by simp
  also have "\<dots> = NaN"
    by (simp add: llr_def log_probs_at_def masked_def demo_loads esm_mask esm_ids
        amino_acids_def demo_masked demo_lp_underflow del: list_update.simps)
  finally show ?thesis
    using v run by (simp add: amino_acids_def)
qed

text \<open>
  C4. For a valid range the table has 20 rows, each of \<open>end - start + 1\<close> entries: one
  column when \<open>start = end\<close>, and as many as the sequence has residues when \<open>start = 1\<close>
  and \<open>end = L\<close>.
\<close>

theorem table_shape:
  assumes "valid_request lib V s start endp"
  shows "\<exists>fig w'. generate_heatmap lib s start (Some endp) w = (Inr fig, w')
           \<and> map length (data fig) = replicate 20 (nat (endp - start + 1))
           \<and> (start = endp \<longrightarrow> map length (data fig) = replicate 20 1)
           \<and> (start = 1 \<and> endp = int (length s) \<longrightarrow>
                 map length (data fig) = replicate 20 (length s))"
proof -
  from valid_request_run[OF assms, of w] obtain fig w' where
    run: "generate_heatmap lib s start (Some endp) w = (Inr fig, w')"
    and l: "length (data fig) = 20"
    and rl: "\<forall>r<20. length (data fig ! r) = nat (endp - start + 1)"
    by blast
  have "map length (data fig) = replicate 20 (nat (endp - start + 1))"
    using l rl by (auto intro!: replicate_eqI simp: in_set_conv_nth)
  then show ?thesis using run by auto
qed

theorem table_shape_witness:
  "valid_request (demo_libraries 1) 33 ''MAPLRKT'' 1 3
   \<and> (\<exists>fig w'. generate_heatmap (demo_libraries 1) ''MAPLRKT'' 1 (Some 3) empty_world = (Inr fig, w')
         \<and> map length (data fig) = replicate 20 3)"
  using valid_demo
    table_shape [where lib = "demo_libraries 1" and V = 33 and s = "''MAPLRKT''" and start = 1
      and endp = 3 and w = empty_world, OF valid_demo]
  by simp

text \<open>
  C5. For a valid request, the store after the call is the store before it, then the token
  row of the sequence, still as the tokenizer gave it, then one clone per position; the
  clone made for \<open>p\<close> is the row given to the forward pass for \<open>p\<close>, it has the mask
  token at index \<open>p\<close> and agrees with the token row at every other index. So no mask
  reaches the shared row or the input of another position.
\<close>

theorem masking_frame:
  fixes lib V s start endp w
  defines "tk \<equiv> AutoTokenizer_from_pretrained lib model_name"
    and "ids \<equiv> encode (AutoTokenizer_from_pretrained lib model_name) s"
  defines "mask_id \<equiv> mask_token_id tk"
  assumes "valid_request lib V s start endp"
  shows "\<exists>fig w'. generate_heatmap lib s start (Some endp) w = (Inr fig, w')
           \<and> heap w' = heap w @ ids # map (\<lambda>q. ids[nat q := mask_id]) [start..endp]
           \<and> events w' = events w @ LoadTokenizer model_name # LoadModel model_name
                 # map (\<lambda>q. Forward (ids[nat q := mask_id])) [start..endp]
           \<and> (\<forall>p j. start \<le> p \<and> p \<le> endp \<and> j \<noteq> nat p \<longrightarrow> ids[nat p := mask_id] ! j = ids ! j)
           \<and> (\<forall>p. start \<le> p \<and> p \<le> endp \<longrightarrow>
                 nat p < length ids \<and> length (ids[nat p := mask_id]) = length ids
                 \<and> ids[nat p := mask_id] ! nat p = mask_id)"
proof -
  from valid_request_run[OF assms(4), of w] obtain fig where
    run: "generate_heatmap lib s start (Some endp) w =
             (Inr fig,
              w\<lparr>heap := heap w @ ids # map (masked tk ids) [start..endp],
                 events := events w @ LoadTokenizer model_name # LoadModel model_name
                             # map (\<lambda>p. Forward (masked tk ids p)) [start..endp]\<rparr>)"
    unfolding tk_def ids_def by blast
  have "frames tk s" "endp \<le> int (length s)"
    using assms(4) by (simp_all add: valid_request_def tk_def)
  then have len: "\<forall>p. start \<le> p \<and> p \<le> endp \<longrightarrow> nat p < length ids"
    by (auto simp: frames_def ids_def tk_def)
  have m: "masked tk ids = (\<lambda>q. ids[nat q := mask_id])"
    by (simp add: masked_def mask_id_def fun_eq_iff)
  show ?thesis
    using run len unfolding m by simp
qed

theorem masking_frame_witness:
  "valid_request (demo_libraries 1) 33 ''MAPLRKT'' 1 3
   \<and> (\<exists>fig w'. generate_heatmap (demo_libraries 1) ''MAPLRKT'' 1 (Some 3) empty_world = (Inr fig, w')
         \<and> heap w' =
             [[0, 20, 5, 14, 4, 10, 15, 11, 2],
              [0, 32, 5, 14, 4, 10, 15, 11, 2],
              [0, 20, 32, 14, 4, 10, 15, 11, 2],
              [0, 20, 5, 32, 4, 10, 15, 11, 2]]
         \<and> events w' =
             [LoadTokenizer model_name, LoadModel model_name,
              Forward [0, 32, 5, 14, 4, 10, 15, 11, 2],
              Forward [0, 20, 32, 14, 4, 10, 15, 11, 2],
              Forward [0, 20, 5, 32, 4, 10, 15, 11, 2]])"
proof -
  from masking_frame [where lib = "demo_libraries 1" and V = 33 and s = "''MAPLRKT''" and start = 1
      and endp = 3 and w = empty_world, OF valid_demo]
  obtain fig w' where
    "generate_heatmap (demo_libraries 1) ''MAPLRKT'' 1 (Some 3) empty_world = (Inr fig, w')"
    "heap w' = heap empty_world @ [0, 20, 5, 14, 4, 10, 15, 11, 2]
        # map (\<lambda>q. [0, 20, 5, 14, 4, 10, 15, 11, 2][nat q := 32]) [1..3]"
    "events w' = events empty_world @ LoadTokenizer model_name # LoadModel model_name
        # map (\<lambda>q. Forward ([0, 20, 5, 14, 4, 10, 15, 11, 2][nat q := 32])) [1..3]"
    unfolding demo_loads encode_demo esm_mask by blast
  then show ?thesis
    using valid_demo unfolding demo_clones demo_forwards by (simp add: empty_world_def)
qed

subsection \<open>The index that is masked\<close>

text \<open>
  C2, as amended. The index of the token row that is masked for the 1-indexed position
  \<open>p\<close>, at which the logits are read and at which the wild-type id is read, is \<open>p\<close>
  itself, counted from 0 as the code indexes: the start token stands at index 0, so that
  index \<open>p\<close> holds the token of residue \<open>p\<close> (the character \<open>s ! (p - 1)\<close>).
\<close>

theorem masked_index:
  fixes lib V s start endp p w
  defines "tk \<equiv> AutoTokenizer_from_pretrained lib model_name"
    and "m \<equiv> EsmForMaskedLM_from_pretrained lib model_name"
    and "ids \<equiv> encode (AutoTokenizer_from_pretrained lib model_name) s"
  defines "lp \<equiv> torch_log lib (torch_softmax lib (m (ids[nat p := mask_token_id tk]) ! nat p))"
  assumes "valid_request lib V s start endp" "start \<le> p" "p \<le> endp"
  shows "\<exists>fig w'. generate_heatmap lib s start (Some endp) w = (Inr fig, w')
           \<and> events w' = events w @ LoadTokenizer model_name # LoadModel model_name
                 # map (\<lambda>q. Forward (ids[nat q := mask_token_id tk])) [start..endp]
           \<and> ids[nat p := mask_token_id tk] ! nat p = mask_token_id tk
           \<and> ids ! nat p = convert_tokens_to_ids tk [s ! nat (p - 1)]
           \<and> (\<forall>i<20. data fig ! i ! nat (p - start) =
                 py_sub (float_round lib)
                   (lp ! nat (convert_tokens_to_ids tk [amino_acids ! i]))
                   (lp ! nat (ids ! nat p)))"
proof -
  from valid_request_run[OF assms(5), of w] obtain fig where
    run: "generate_heatmap lib s start (Some endp) w =
             (Inr fig,
              w\<lparr>heap := heap w @ ids # map (masked tk ids) [start..endp],
                 events := events w @ LoadTokenizer model_name # LoadModel model_name
                             # map (\<lambda>p. Forward (masked tk ids p)) [start..endp]\<rparr>)"
    and cells: "\<forall>p. start \<le> p \<and> p \<le> endp \<longrightarrow>
                 (\<forall>r<20. data fig ! r ! nat (p - start) = llr lib tk m ids p (amino_acids ! r))"
    and tok: "\<forall>p. start \<le> p \<and> p \<le> endp \<longrightarrow>
                 ids ! nat p = convert_tokens_to_ids tk [s ! nat (p - 1)]"
    unfolding tk_def m_def ids_def by blast
  have "frames tk s" "endp \<le> int (length s)"
    using assms(5) by (simp_all add: valid_request_def tk_def)
  then have len: "nat p < length ids"
    using assms(6,7) by (auto simp: frames_def ids_def tk_def)
  have c: "\<forall>i<20. data fig ! i ! nat (p - start) =
                 py_sub (float_round lib)
                   (lp ! nat (convert_tokens_to_ids tk [amino_acids ! i]))
                   (lp ! nat (ids ! nat p))"
    using cells assms(6,7) by (simp add: llr_def log_probs_at_def masked_def lp_def)
  have t: "ids ! nat p = convert_tokens_to_ids tk [s ! nat (p - 1)]"
    using tok assms(6,7) by simp
  show ?thesis
    using run len c t by (simp add: masked_def)
qed

theorem masked_index_witness:
  "valid_request (demo_libraries 1) 33 ''MAPLRKT'' 1 3
   \<and> (\<exists>fig w'. generate_heatmap (demo_libraries 1) ''MAPLRKT'' 1 (Some 3) empty_world = (Inr fig, w')
         \<and> events w' =
             [LoadTokenizer model_name, LoadModel model_name,
              Forward [0, 32, 5, 14, 4, 10, 15, 11, 2],
              Forward [0, 20, 32, 14, 4, 10, 15, 11, 2],
              Forward [0, 20, 5, 32, 4, 10, 15, 11, 2]]
         \<and> [0, 20, 5, 14, 4, 10, 15, 11, 2::int] ! 2 = convert_tokens_to_ids esm_tokenizer ''A'')"
  using valid_demo
    masked_index [where lib = "demo_libraries 1" and V = 33 and s = "''MAPLRKT''" and start = 1 and endp = 3
      and p = 2 and w = empty_world, OF valid_demo]
  by (simp add: demo_loads encode_demo esm_mask esm_ids empty_world_def
      demo_forwards demo_masked del: list_update.simps) blast

text \<open>
  The claim as first stated puts the mask at index \<open>p + 1\<close>. For position 1 of
  \<^verbatim>\<open>MAPLRKT\<close> the one forward pass is on the row masked at index 1, which is not the row
  masked at index 2.
\<close>

theorem masked_index_counterexample:
  "events (snd (generate_heatmap (demo_libraries 1) ''MAPLRKT'' 1 (Some 1) empty_world)) =
     [LoadTokenizer model_name, LoadModel model_name, Forward [0, 32, 5, 14, 4, 10, 15, 11, 2]]
   \<and> (encode esm_tokenizer ''MAPLRKT'')[nat (1 + 1) := mask_token_id esm_tokenizer]
       = [0, 20, 32, 14, 4, 10, 15, 11, 2]
   \<and> Forward ((encode esm_tokenizer ''MAPLRKT'')[nat (1 + 1) := mask_token_id esm_tokenizer])
       \<notin> set (events (snd (generate_heatmap (demo_libraries 1) ''MAPLRKT'' 1 (Some 1) empty_world)))"
proof -
  have v: "valid_request (demo_libraries 1) 33 ''MAPLRKT'' 1 1"
    by (rule valid_demo_range) simp_all
  from valid_request_run[OF v, of empty_world] obtain fig where
    "generate_heatmap (demo_libraries 1) ''MAPLRKT'' 1 (Some 1) empty_world =
       (Inr fig,
        empty_world\<lparr>heap := heap empty_world @ [0, 20, 5, 14, 4, 10, 15, 11, 2]
             # map (masked esm_tokenizer [0, 20, 5, 14, 4, 10, 15, 11, 2]) [1..1],
           events := events empty_world @ LoadTokenizer model_name # LoadModel model_name
             # map (\<lambda>p. Forward (masked esm_tokenizer [0, 20, 5, 14, 4, 10, 15, 11, 2] p)) [1..1]\<rparr>)"
    unfolding demo_loads encode_demo by blast
  then have "events (snd (generate_heatmap (demo_libraries 1) ''MAPLRKT'' 1 (Some 1) empty_world)) =
     [LoadTokenizer model_name, LoadModel model_name, Forward [0, 32, 5, 14, 4, 10, 15, 11, 2]]"
    by (simp add: empty_world_def masked_def esm_mask upto.simps)
  then show ?thesis
    by (simp add: encode_demo esm_mask demo_masked del: list_update.simps)
qed

subsection \<open>Repeated calls\<close>

text \<open>
  C6. The result of a call (the figure or the exception) does not depend on the world the
  call starts in, so any two calls with the same libraries, sequence and range give the
  same table, also when the second call runs in the world the first one left; and the call
  changes no tensor that was in the store before it.
\<close>

theorem generate_heatmap_deterministic:
  "fst (generate_heatmap lib s start end_arg w1) = fst (generate_heatmap lib s start end_arg w2)
   \<and> fst (generate_heatmap lib s start end_arg (snd (generate_heatmap lib s start end_arg w1)))
       = fst (generate_heatmap lib s start end_arg w1)
   \<and> prefix (heap w1) (heap (snd (generate_heatmap lib s start end_arg w1)))"
  using generate_heatmap_same[of lib s start end_arg w1 w2]
    generate_heatmap_same[of lib s start end_arg "snd (generate_heatmap lib s start end_arg w1)" w1]
    generate_heatmap_grows[of w1 lib s start end_arg]
  by simp

theorem generate_heatmap_deterministic_witness:
  "fst (generate_heatmap (demo_libraries 1) ''MAPLRKT'' 1 (Some 3) empty_world)
     = fst (generate_heatmap (demo_libraries 1) ''MAPLRKT'' 1 (Some 3)
              \<lparr>heap = [[7, 7]], events = [Forward [7, 7]]\<rparr>)"
  using generate_heatmap_deterministic [of "demo_libraries 1" "''MAPLRKT''" 1 "Some 3" empty_world
      "\<lparr>heap = [[7, 7]], events = [Forward [7, 7]]\<rparr>"]
  by simp

subsection \<open>Residues and tokens are not checked\<close>

text \<open>
  C8, as amended. The function checks neither the characters of the sequence nor the ids
  that the tokenizer returns. For any sequence, over the twenty letters or not, whose token
  ids lie within the vocabulary of a well-formed model, and any range with
  \<open>1 \<le> start \<le> end\<close>, \<open>end \<le> len(input_ids) - 2\<close> and \<open>end \<le> len(sequence)\<close>, the call
  returns a table of 20 rows whose cell for position \<open>p\<close> is the log-likelihood ratio
  against the token id that stands at index \<open>p\<close> of the token row. That id belongs to the
  character at \<open>p\<close> only when the tokenizer gives one token per character: for
  \<^verbatim>\<open>MJJA\<close>, whose two \<^verbatim>\<open>J\<close> become one token, position 3 (a \<^verbatim>\<open>J\<close>) is scored against
  the id of \<^verbatim>\<open>A\<close>.
\<close>

theorem residues_unchecked:
  fixes lib V s start endp w
  defines "tk \<equiv> AutoTokenizer_from_pretrained lib model_name"
    and "m \<equiv> EsmForMaskedLM_from_pretrained lib model_name"
    and "ids \<equiv> encode (AutoTokenizer_from_pretrained lib model_name) s"
  assumes "wf_numerics lib" "wf_model m V" "wf_tokenizer tk V"
    and "\<forall>t \<in> set ids. 0 \<le> t \<and> t < int V"
    and "1 \<le> start" "start \<le> endp" "endp \<le> int (length ids) - 2" "endp \<le> int (length s)"
  shows "\<exists>fig w'. generate_heatmap lib s start (Some endp) w = (Inr fig, w')
           \<and> map length (data fig) = replicate 20 (nat (endp - start + 1))
           \<and> (\<forall>p i. start \<le> p \<and> p \<le> endp \<and> i < 20 \<longrightarrow>
                 data fig ! i ! nat (p - start) =
                   py_sub (float_round lib)
                     (log_probs_at lib tk m ids p ! nat (convert_tokens_to_ids tk [amino_acids ! i]))
                     (log_probs_at lib tk m ids p ! nat (ids ! nat p)))"
  unfolding tk_def m_def ids_def
  by (rule generate_heatmap_in_vocabulary
      [OF assms(4) assms(5)[unfolded m_def] assms(6)[unfolded tk_def] assms(7)[unfolded ids_def]
          assms(8,9) assms(10)[unfolded ids_def] assms(11)])

theorem residues_unchecked_witness:
  "wf_numerics (demo_libraries 1) \<and> wf_model (previous_token_model 1) 33
   \<and> wf_tokenizer esm_tokenizer 33
   \<and> encode esm_tokenizer ''MJJA'' = [0, 20, 3, 5, 2] \<and> ''MJJA'' ! 2 = CHR ''J''
   \<and> (\<exists>fig w'. generate_heatmap (demo_libraries 1) ''MJJA'' 1 (Some 3) empty_world = (Inr fig, w')
         \<and> map length (data fig) = replicate 20 3
         \<and> data fig ! 0 ! 2 =
             py_sub Finite
               (log_probs_at (demo_libraries 1) esm_tokenizer (previous_token_model 1)
                  [0, 20, 3, 5, 2] 3 ! 5)
               (log_probs_at (demo_libraries 1) esm_tokenizer (previous_token_model 1)
                  [0, 20, 3, 5, 2] 3 ! 5))"
proof -
  have ids: "\<forall>t \<in> set (encode (AutoTokenizer_from_pretrained (demo_libraries 1) model_name) ''MJJA'').
               0 \<le> t \<and> t < int 33"
    by (simp add: demo_loads encode_MJJA)
  have rg: "(1::int) \<le> 1" "(1::int) \<le> 3"
    "3 \<le> int (length (encode (AutoTokenizer_from_pretrained (demo_libraries 1) model_name)
                          ''MJJA'')) - 2"
    "3 \<le> int (length ''MJJA'')"
    by (simp_all add: demo_loads encode_MJJA)
  from residues_unchecked [where lib = "demo_libraries 1" and V = 33 and s = "''MJJA''"
      and start = 1 and endp = 3 and w = empty_world,
      OF wf_demo_numerics
         wf_previous_token_model[of 1, folded demo_loads(2)[of 1 model_name]]
         wf_esm_tokenizer[folded demo_loads(1)[of 1 model_name]] ids rg]
  obtain fig w' where
    run: "generate_heatmap (demo_libraries 1) ''MJJA'' 1 (Some 3) empty_world = (Inr fig, w')"
    and shape: "map length (data fig) = replicate 20 (nat (3 - 1 + 1))"
    and cells: "\<forall>p i. 1 \<le> p \<and> p \<le> 3 \<and> i < 20 \<longrightarrow>
                 data fig ! i ! nat (p - 1) =
                   py_sub Finite
                     (log_probs_at (demo_libraries 1) esm_tokenizer (previous_token_model 1)
                        [0, 20, 3, 5, 2] p ! nat (convert_tokens_to_ids esm_tokenizer [amino_acids ! i]))
                     (log_probs_at (demo_libraries 1) esm_tokenizer (previous_token_model 1)
                        [0, 20, 3, 5, 2] p ! nat ([0, 20, 3, 5, 2] ! nat p))"
    unfolding demo_loads encode_MJJA by blast
  have "data fig ! 0 ! nat (3 - 1) =
          py_sub Finite
            (log_probs_at (demo_libraries 1) esm_tokenizer (previous_token_model 1)
               [0, 20, 3, 5, 2] 3 ! nat (convert_tokens_to_ids esm_tokenizer [amino_acids ! 0]))
            (log_probs_at (demo_libraries 1) esm_tokenizer (previous_token_model 1)
               [0, 20, 3, 5, 2] 3 ! nat ([0, 20, 3, 5, 2] ! nat 3))"
    using cells[rule_format, of 3 0] by simp
  then have "data fig ! 0 ! 2 =
             py_sub Finite
               (log_probs_at (demo_libraries 1) esm_tokenizer (previous_token_model 1)
                  [0, 20, 3, 5, 2] 3 ! 5)
               (log_probs_at (demo_libraries 1) esm_tokenizer (previous_token_model 1)
                  [0, 20, 3, 5, 2] 3 ! 5)"
    by (simp add: amino_acids_def esm_ids numeral_3_eq_3)
  then show ?thesis
    using run shape wf_demo_numerics wf_previous_token_model wf_esm_tokenizer encode_MJJA
    by simp
qed

text \<open>
  The claim as first stated asks for an error on a residue outside the alphabet. With the
  ESM-2 vocabulary \<^verbatim>\<open>X\<close> has a token, and the call on \<^verbatim>\<open>MXA\<close> raises nothing and
  returns a table of 20 rows and 3 columns.
\<close>

theorem unrecognized_residue_counterexample:
  "CHR ''X'' \<in> set ''MXA'' \<and> CHR ''X'' \<notin> set amino_acids
   \<and> \<not> isl (fst (generate_heatmap (demo_libraries 1) ''MXA'' 1 (Some 3) empty_world))
   \<and> map length (data (projr (fst (generate_heatmap (demo_libraries 1) ''MXA'' 1 (Some 3)
                                     empty_world))))
       = replicate 20 3"
proof -
  have ids: "\<forall>t \<in> set (encode (AutoTokenizer_from_pretrained (demo_libraries 1) model_name) ''MXA'').
               0 \<le> t \<and> t < int 33"
    by (simp add: demo_loads encode_MXA)
  have rg: "(1::int) \<le> 1" "(1::int) \<le> 3"
    "3 \<le> int (length (encode (AutoTokenizer_from_pretrained (demo_libraries 1) model_name)
                          ''MXA'')) - 2"
    "3 \<le> int (length ''MXA'')"
    by (simp_all add: demo_loads encode_MXA)
  from generate_heatmap_in_vocabulary [where lib = "demo_libraries 1" and V = 33
      and s = "''MXA''" and start = 1 and endp = 3 and w = empty_world,
      OF wf_demo_numerics
         wf_previous_token_model[of 1, folded demo_loads(2)[of 1 model_name]]
         wf_esm_tokenizer[folded demo_loads(1)[of 1 model_name]] ids rg]
  obtain fig w' where
    "generate_heatmap (demo_libraries 1) ''MXA'' 1 (Some 3) empty_world = (Inr fig, w')"
    "map length (data fig) = replicate 20 (nat (3 - 1 + 1))"
    by blast
  then show ?thesis by (simp add: amino_acids_def)
qed

subsection \<open>Loading\<close>

text \<open>
  C9, as amended. The function takes the sequence and the range only; every call first
  loads the tokenizer and then the model stored under the name
  \<^verbatim>\<open>facebook/esm2_t6_8M_UR50D\<close>, before anything else is added to the trace.
\<close>

theorem loads_on_every_call:
  "prefix (events w @ [LoadTokenizer model_name, LoadModel model_name])
     (events (snd (generate_heatmap lib s start end_arg w)))"
  using generate_heatmap_grows[of w lib s start end_arg] by simp

theorem loads_on_every_call_witness:
  "prefix [LoadTokenizer model_name, LoadModel model_name]
     (events (snd (generate_heatmap (demo_libraries 1) ''MAPLRKT'' 1 (Some 3) empty_world)))"
  using loads_on_every_call [of empty_world "demo_libraries 1" "''MAPLRKT''" 1 "Some 3"]
  by (simp add: empty_world_def)

text \<open>
  The claim as first stated has no load during a scoring call; the trace of a call starts
  with the two loads.
\<close>

theorem no_loading_counterexample:
  "take 2 (events (snd (generate_heatmap (demo_libraries 1) ''MAPLRKT'' 1 (Some 3) empty_world)))
     = [LoadTokenizer ''facebook/esm2_t6_8M_UR50D'', LoadModel ''facebook/esm2_t6_8M_UR50D'']"
proof -
  have "prefix ([] @ [LoadTokenizer model_name, LoadModel model_name])
     (events (snd (generate_heatmap (demo_libraries 1) ''MAPLRKT'' 1 (Some 3) empty_world)))"
    using generate_heatmap_grows[of empty_world "demo_libraries 1" "''MAPLRKT''" 1 "Some 3"]
    by (simp add: empty_world_def)
  then obtain es where "events (snd (generate_heatmap (demo_libraries 1) ''MAPLRKT'' 1 (Some 3) empty_world))
      = [LoadTokenizer model_name, LoadModel model_name] @ es"
    by (auto simp: prefix_def)
  then show ?thesis by (simp add: model_name_def)
qed

subsection \<open>A direct call with an empty range\<close>

text \<open>
  C10. A direct call with \<open>start_pos > end_pos\<close> is not skipped: the function has no guard
  of its own. It loads the tokenizer and the model and tokenizes the sequence, then asks
  for an array of \<open>end_pos - start_pos + 1\<close> columns: when that number is negative the call
  ends with ValueError, and when it is 0 the loop scores the empty range and the figure has
  20 rows of no entries. In both cases the world after the call differs from the one before.
\<close>

theorem generate_heatmap_unguarded:
  assumes "endp < start"
  shows "generate_heatmap lib s start (Some endp) w =
           (if endp + 1 < start then Inl ValueError
            else Inr \<lparr>data = replicate 20 [], xtick_locs = [], xtick_labels = [],
                      ytick_locs = [0..19], ytick_labels = amino_acids\<rparr>,
            w\<lparr>events := events w @ [LoadTokenizer model_name, LoadModel model_name],
               heap := heap w @ [encode (AutoTokenizer_from_pretrained lib model_name) s]\<rparr>)
         \<and> snd (generate_heatmap lib s start (Some endp) w) \<noteq> w"
proof -
  let ?w2 = "w\<lparr>events := events w @ [LoadTokenizer model_name, LoadModel model_name],
                heap := heap w @ [encode (AutoTokenizer_from_pretrained lib model_name) s]\<rparr>"
  have ne: "?w2 \<noteq> w"
  proof
    assume "?w2 = w"
    then have "events ?w2 = events w" by simp
    then show False by simp
  qed
  show ?thesis
  proof (cases "endp + 1 < start")
    case True
    then have "np_zeros 20 (endp - start + 1) = Inl ValueError"
      by (simp add: np_zeros_def)
    then have "generate_heatmap lib s start (Some endp) w = (Inl ValueError, ?w2)"
      by (simp add: generate_heatmap_unfold Let_def end_default_def)
    then show ?thesis using True ne by simp
  next
    case False
    then have e: "endp = start - 1" using assms by simp
    have z: "np_zeros 20 (endp - start + 1) = Inr (replicate 20 [])"
      by (simp add: np_zeros_def e)
    have "generate_heatmap lib s start (Some endp) w =
            (Inr \<lparr>data = replicate 20 [], xtick_locs = [], xtick_labels = [],
                      ytick_locs = [0..19], ytick_labels = amino_acids\<rparr>, ?w2)"
      using z by (simp add: generate_heatmap_unfold Let_def end_default_def e py_slice_empty)
    then show ?thesis using False ne by simp
  qed
qed

theorem generate_heatmap_unguarded_witness:
  "(1::int) < 3 \<and> (1::int) < 2
   \<and> generate_heatmap (demo_libraries 1) ''MAPLRKT'' 3 (Some 1) empty_world =
        (Inl ValueError,
         \<lparr>heap = [[0, 20, 5, 14, 4, 10, 15, 11, 2]],
          events = [LoadTokenizer model_name, LoadModel model_name]\<rparr>)
   \<and> generate_heatmap (demo_libraries 1) ''MAPLRKT'' 2 (Some 1) empty_world =
        (Inr \<lparr>data = replicate 20 [], xtick_locs = [], xtick_labels = [],
              ytick_locs = [0..19], ytick_labels = amino_acids\<rparr>,
         \<lparr>heap = [[0, 20, 5, 14, 4, 10, 15, 11, 2]],
          events = [LoadTokenizer model_name, LoadModel model_name]\<rparr>)"
  using generate_heatmap_unguarded [of 1 3 "demo_libraries 1" "''MAPLRKT''" empty_world]
    generate_heatmap_unguarded [of 1 2 "demo_libraries 1" "''MAPLRKT''" empty_world]
  by (simp add: demo_loads encode_demo empty_world_def)

end
